theory Spec2Isabelle
  imports Main
begin

section \<open>JavaScript values and strings\<close>

text \<open>
  Request bodies are parsed JSON and the handlers destructure them untyped, so a property
  of a body is a JavaScript value. Numbers are integers here (fractions, NaN and the
  rounding of doubles beyond 2^53 are left out), and nested objects and arrays as property
  values are left out. A property that is absent reads as \<open>JUndefined\<close>.
\<close>

datatype jsval = JUndefined | JNull | JBool bool | JNum int | JStr string

text \<open>An object is its list of own properties in insertion order.\<close>

type_synonym jsobj = "(string \<times> jsval) list"

definition get :: "jsobj \<Rightarrow> string \<Rightarrow> jsval" where
  "get obj k = (case map_of obj k of None \<Rightarrow> JUndefined | Some v \<Rightarrow> v)"

definition put :: "jsobj \<Rightarrow> string \<Rightarrow> jsval \<Rightarrow> jsobj" where
  "put obj k v =
     (if k \<in> set (map fst obj) then map (\<lambda>(k', v'). if k' = k then (k', v) else (k', v')) obj
      else obj @ [(k, v)])"

text \<open>Truthiness: what \<open>!x\<close> and \<open>x || y\<close> test.\<close>

fun truthy :: "jsval \<Rightarrow> bool" where
  "truthy JUndefined = False"
| "truthy JNull = False"
| "truthy (JBool b) = b"
| "truthy (JNum n) = (n \<noteq> 0)"
| "truthy (JStr s) = (s \<noteq> [])"

definition or_else :: "jsval \<Rightarrow> jsval \<Rightarrow> jsval" where
  "or_else a b = (if truthy a then a else b)"

text \<open>\<open>Number.prototype.toString\<close> on a non-negative integer, and \<open>padStart\<close>.\<close>

fun digits :: "nat \<Rightarrow> string" where
  "digits n =
     (if n < 10 then [''0123456789'' ! n]
      else digits (n div 10) @ [''0123456789'' ! (n mod 10)])"

declare digits.simps [simp del]

definition padStart :: "nat \<Rightarrow> char \<Rightarrow> string \<Rightarrow> string" where
  "padStart targetLength c s = replicate (targetLength - length s) c @ s"

definition toString :: "jsval \<Rightarrow> string" where
  "toString v =
     (case v of
        JUndefined \<Rightarrow> ''undefined''
      | JNull \<Rightarrow> ''null''
      | JBool b \<Rightarrow> (if b then ''true'' else ''false'')
      | JNum n \<Rightarrow> (if n < 0 then CHR ''-'' # digits (nat (- n)) else digits (nat n))
      | JStr s \<Rightarrow> s)"

text \<open>
  White space as \<open>trim\<close> and \<open>parseInt\<close> skip it, for the ASCII range (the Unicode
  spaces beyond it are several bytes of a \<open>string\<close> and are not treated as white space).
\<close>

definition isWhiteSpace :: "char \<Rightarrow> bool" where
  "isWhiteSpace c \<longleftrightarrow>
     c \<in> set [CHR 0x09, CHR 0x0A, CHR 0x0B, CHR 0x0C, CHR 0x0D, CHR '' '']"

definition trim :: "string \<Rightarrow> string" where
  "trim s = rev (dropWhile isWhiteSpace (rev (dropWhile isWhiteSpace s)))"

text \<open>\<open>String.prototype.split\<close> with a separator of one character.\<close>

fun str_split :: "char \<Rightarrow> string \<Rightarrow> string list" where
  "str_split sep [] = [[]]"
| "str_split sep (c # cs) =
     (if c = sep then [] # str_split sep cs
      else (case str_split sep cs of [] \<Rightarrow> [[c]] | p # ps \<Rightarrow> (c # p) # ps))"

text \<open>
  \<open>parseInt(x)\<close> with no radix: the argument is converted to a string, leading white
  space and one sign are skipped, a prefix \<open>0x\<close> or \<open>0X\<close> selects radix 16, and the
  longest run of digits is read. \<open>None\<close> is NaN.
\<close>

definition digitValue :: "char \<Rightarrow> nat option" where
  "digitValue c =
     (let n = (of_char c :: nat) in
      if 48 \<le> n \<and> n \<le> 57 then Some (n - 48)
      else if 97 \<le> n \<and> n \<le> 122 then Some (n - 87)
      else if 65 \<le> n \<and> n \<le> 90 then Some (n - 55)
      else None)"

definition isRadixDigit :: "nat \<Rightarrow> char \<Rightarrow> bool" where
  "isRadixDigit R c = (case digitValue c of None \<Rightarrow> False | Some d \<Rightarrow> d < R)"

definition radixValue :: "nat \<Rightarrow> string \<Rightarrow> nat" where
  "radixValue R Z = foldl (\<lambda>acc c. acc * R + (case digitValue c of None \<Rightarrow> 0 | Some d \<Rightarrow> d)) 0 Z"

definition parseIntString :: "string \<Rightarrow> int option" where
  "parseIntString inputString =
     (let S = dropWhile isWhiteSpace inputString;
          sign = (case S of c # _ \<Rightarrow> if c = CHR ''-'' then - 1 else 1 | [] \<Rightarrow> (1 :: int));
          S1 = (case S of c # rest \<Rightarrow> if c = CHR ''-'' \<or> c = CHR ''+'' then rest else S | [] \<Rightarrow> S);
          hex = (case S1 of a # b # _ \<Rightarrow> a = CHR ''0'' \<and> (b = CHR ''x'' \<or> b = CHR ''X'') | _ \<Rightarrow> False);
          R = (if hex then 16 else 10);
          S2 = (if hex then drop 2 S1 else S1);
          Z = takeWhile (isRadixDigit R) S2
      in if Z = [] then None else Some (sign * int (radixValue R Z)))"

definition parseInt :: "jsval \<Rightarrow> int option" where
  "parseInt v = parseIntString (toString v)"

section \<open>Data model\<close>

text \<open>
  The interfaces \<open>Employee\<close> and \<open>Customer\<close> of the store module, which are also the
  rows of the two tables. The column \<open>createdAt\<close> is filled by the store's clock and is
  read by no decision of the code; it is left out. \<open>role\<close> is declared
  \<open>'admin' | 'user'\<close> but is a TEXT column that holds whatever was bound, so it is a
  string here.
\<close>

record Employee =
  id :: int
  employeeCode :: string
  firstname :: string
  lastname :: string
  mobile :: string
  dateOfBirth :: string
  email :: string
  password :: string
  role :: string

record Customer =
  id :: int
  customerCode :: string
  firstname :: string
  lastname :: string
  mobile :: string
  dateOfBirth :: string
  email :: string
  createdBy :: "int option"

text \<open>An employee without the \<open>password\<close> property: \<open>Omit<Employee, 'password'>\<close>.\<close>

record EmployeeInfo =
  id :: int
  employeeCode :: string
  firstname :: string
  lastname :: string
  mobile :: string
  dateOfBirth :: string
  email :: string
  role :: string

text \<open>The customer object the customer handlers put in a response.\<close>

record CustomerInfo =
  id :: int
  customerCode :: string
  firstname :: string
  lastname :: string
  mobile :: string
  dateOfBirth :: string
  email :: string

text \<open>The claims \<open>authenticateUser\<close> signs into a session token.\<close>

record TokenPayload =
  employeeCode :: string
  email :: string
  id :: int
  role :: string

text \<open>
  The \<open>updates\<close> arguments of \<open>updateEmployee\<close> and \<open>updateCustomer\<close>, with the
  properties of their declared types
  \<open>Partial<Omit<Employee, 'id' | 'employeeCode' | 'password'>>\<close> and
  \<open>Partial<Omit<Customer, 'id' | 'customerCode'>>\<close>. A property that is absent is
  \<open>JUndefined\<close>: both functions drop the properties whose value is \<open>undefined\<close>
  before anything else.
\<close>

record EmployeeUpdates =
  firstname :: jsval
  lastname :: jsval
  mobile :: jsval
  dateOfBirth :: jsval
  email :: jsval
  role :: jsval

record CustomerUpdates =
  firstname :: jsval
  lastname :: jsval
  mobile :: jsval
  dateOfBirth :: jsval
  email :: jsval
  createdBy :: jsval

text \<open>
  The libraries the code calls and that are not part of the repository are parameters:
  \<open>bcryptjs\<close> (\<open>hash\<close> with ten salt rounds, \<open>compare\<close>), \<open>jsonwebtoken\<close>
  (\<open>sign\<close> with \<open>expiresIn: '24h'\<close>, and \<open>verify\<close> at the time of the call, \<open>None\<close>
  when it throws), and the text or integer that the SQLite driver stores when a number or
  a boolean is bound to a TEXT column, or a string or a boolean to an INTEGER column.
\<close>

record libs =
  bcrypt_hash :: "string \<Rightarrow> string"
  bcrypt_compare :: "string \<Rightarrow> string \<Rightarrow> bool"
  jwt_sign :: "TokenPayload \<Rightarrow> string \<Rightarrow> string"
  jwt_verify :: "string \<Rightarrow> string \<Rightarrow> TokenPayload option"
  sqlite_text :: "jsval \<Rightarrow> string"
  sqlite_integer :: "jsval \<Rightarrow> int option"

text \<open>
  The database file: the rows of the two tables in insertion order, and for each table
  the largest id it ever assigned (what AUTOINCREMENT keeps in \<open>sqlite_sequence\<close>).
\<close>

record DB =
  employees :: "Employee list"
  customers :: "Customer list"
  employees_seq :: int
  customers_seq :: int

text \<open>What a rejected promise carries: a refused statement, or an argument \<open>bcryptjs\<close> refuses.\<close>

datatype rejection = SQLITE_CONSTRAINT | IllegalArguments

section \<open>The store\<close>

text \<open>
  The value a bound parameter leaves in a TEXT column; \<open>None\<close> is NULL, which every
  TEXT column of both tables refuses (NOT NULL).
\<close>

definition sqlText :: "libs \<Rightarrow> jsval \<Rightarrow> string option" where
  "sqlText L v =
     (case v of
        JUndefined \<Rightarrow> None
      | JNull \<Rightarrow> None
      | JStr s \<Rightarrow> Some s
      | _ \<Rightarrow> Some (sqlite_text L v))"

definition sqlInteger :: "libs \<Rightarrow> jsval \<Rightarrow> int option" where
  "sqlInteger L v =
     (case v of
        JUndefined \<Rightarrow> None
      | JNull \<Rightarrow> None
      | JNum n \<Rightarrow> Some n
      | _ \<Rightarrow> sqlite_integer L v)"

definition hashPassword :: "libs \<Rightarrow> jsval \<Rightarrow> rejection + string" where
  "hashPassword L pw =
     (case pw of JStr s \<Rightarrow> Inr (bcrypt_hash L s) | _ \<Rightarrow> Inl IllegalArguments)"

subsection \<open>Code generation\<close>

definition generateUniqueEmployeeCode :: "DB \<Rightarrow> string" where
  "generateUniqueEmployeeCode db =
     (let count = length (employees db) + 1
      in ''EMP'' @ padStart 3 CHR ''0'' (digits count))"

definition generateUniqueCustomerCode :: "DB \<Rightarrow> string" where
  "generateUniqueCustomerCode db =
     (let count = length (customers db) + 1
      in ''CUST'' @ padStart 3 CHR ''0'' (digits count))"

subsection \<open>Employees\<close>

text \<open>
  \<open>INSERT INTO employees\<close>: every column is NOT NULL, \<open>employeeCode\<close> and \<open>email\<close>
  are UNIQUE, and the id is one more than the largest id the table ever assigned. The
  result is the new row (its id is \<open>lastID\<close>) and the new database; a refused statement
  changes nothing.
\<close>

definition insertEmployee :: "libs \<Rightarrow> DB \<Rightarrow> jsval list \<Rightarrow> rejection + (Employee \<times> DB)" where
  "insertEmployee L db params =
     (case those (map (sqlText L) params) of
        Some [code, fn, ln, mob, dob, em, pw, rl] \<Rightarrow>
          if code \<in> set (map Employee.employeeCode (employees db))
             \<or> em \<in> set (map Employee.email (employees db))
          then Inl SQLITE_CONSTRAINT
          else
            (let lastID = employees_seq db + 1;
                 row = \<lparr> Employee.id = lastID, Employee.employeeCode = code,
                         Employee.firstname = fn, Employee.lastname = ln,
                         Employee.mobile = mob, Employee.dateOfBirth = dob,
                         Employee.email = em, Employee.password = pw, Employee.role = rl \<rparr>
             in Inr (row, db\<lparr> employees := employees db @ [row], employees_seq := lastID \<rparr>))
      | _ \<Rightarrow> Inl SQLITE_CONSTRAINT)"

text \<open>
  \<open>createEmployee\<close>. Its argument is the object the handler builds from the body, so
  its properties are JavaScript values. The object it resolves to carries \<open>lastID\<close>,
  the code, the hash and the argument's properties; the model returns the stored row,
  which has the same content whenever the properties are strings.
\<close>

definition createEmployee :: "libs \<Rightarrow> DB \<Rightarrow> jsobj \<Rightarrow> rejection + (Employee \<times> DB)" where
  "createEmployee L db employee =
     (let code = generateUniqueEmployeeCode db in
      case hashPassword L (get employee ''password'') of
        Inl e \<Rightarrow> Inl e
      | Inr hashedPassword \<Rightarrow>
          (case insertEmployee L db
                  [JStr code, get employee ''firstname'', get employee ''lastname'',
                   get employee ''mobile'', get employee ''dateOfBirth'', get employee ''email'',
                   JStr hashedPassword, or_else (get employee ''role'') (JStr ''user'')] of
             Inl e \<Rightarrow> Inl e
           | Inr (row, db') \<Rightarrow> Inr (row, db')))"

text \<open>
  \<open>getEmployeeByCode\<close>: the argument is bound to the statement as it comes, and the
  TEXT column compares it as text; NULL equals no code.
\<close>

definition getEmployeeByCode :: "libs \<Rightarrow> DB \<Rightarrow> jsval \<Rightarrow> Employee option" where
  "getEmployeeByCode L db code =
     (case sqlText L code of
        None \<Rightarrow> None
      | Some c \<Rightarrow> find (\<lambda>r. Employee.employeeCode r = c) (employees db))"

text \<open>An id argument is the result of \<open>parseInt\<close>; \<open>None\<close> (NaN) equals no id.\<close>

definition getEmployeeById :: "DB \<Rightarrow> int option \<Rightarrow> Employee option" where
  "getEmployeeById db i = find (\<lambda>r. Some (Employee.id r) = i) (employees db)"

definition withoutPassword :: "Employee \<Rightarrow> EmployeeInfo" where
  "withoutPassword e =
     \<lparr> EmployeeInfo.id = Employee.id e, EmployeeInfo.employeeCode = Employee.employeeCode e,
       EmployeeInfo.firstname = Employee.firstname e, EmployeeInfo.lastname = Employee.lastname e,
       EmployeeInfo.mobile = Employee.mobile e, EmployeeInfo.dateOfBirth = Employee.dateOfBirth e,
       EmployeeInfo.email = Employee.email e, EmployeeInfo.role = Employee.role e \<rparr>"

definition getAllEmployees :: "DB \<Rightarrow> EmployeeInfo list" where
  "getAllEmployees db = map withoutPassword (rev (sort_key Employee.id (employees db)))"

text \<open>
  One assignment of the SET clause on a TEXT column: a property that was dropped keeps
  the old text, any other is bound; \<open>None\<close> is NULL.
\<close>

definition setText :: "libs \<Rightarrow> jsval \<Rightarrow> string \<Rightarrow> string option" where
  "setText L v old = (if v = JUndefined then Some old else sqlText L v)"

definition employeeFields :: "EmployeeUpdates \<Rightarrow> string list" where
  "employeeFields updates =
     map fst (filter (\<lambda>(key, v). v \<noteq> JUndefined)
       [(''firstname'', EmployeeUpdates.firstname updates),
        (''lastname'', EmployeeUpdates.lastname updates),
        (''mobile'', EmployeeUpdates.mobile updates),
        (''dateOfBirth'', EmployeeUpdates.dateOfBirth updates),
        (''email'', EmployeeUpdates.email updates),
        (''role'', EmployeeUpdates.role updates)])"

definition setEmployee :: "libs \<Rightarrow> EmployeeUpdates \<Rightarrow> Employee \<Rightarrow> Employee option" where
  "setEmployee L updates r =
     (case those
        [setText L (EmployeeUpdates.firstname updates) (Employee.firstname r),
         setText L (EmployeeUpdates.lastname updates) (Employee.lastname r),
         setText L (EmployeeUpdates.mobile updates) (Employee.mobile r),
         setText L (EmployeeUpdates.dateOfBirth updates) (Employee.dateOfBirth r),
         setText L (EmployeeUpdates.email updates) (Employee.email r),
         setText L (EmployeeUpdates.role updates) (Employee.role r)] of
        Some [fn, ln, mob, dob, em, rl] \<Rightarrow>
          Some (r\<lparr> Employee.firstname := fn, Employee.lastname := ln, Employee.mobile := mob,
                  Employee.dateOfBirth := dob, Employee.email := em, Employee.role := rl \<rparr>)
      | _ \<Rightarrow> None)"

text \<open>
  \<open>UPDATE employees SET ... WHERE id = ?\<close>: the number of rows changed and the new
  database. A row that matches is counted as changed whatever the values.
\<close>

definition updateEmployeeRow ::
  "libs \<Rightarrow> DB \<Rightarrow> EmployeeUpdates \<Rightarrow> int option \<Rightarrow> rejection + (nat \<times> DB)" where
  "updateEmployeeRow L db updates i =
     (case getEmployeeById db i of
        None \<Rightarrow> Inr (0, db)
      | Some r \<Rightarrow>
          (case setEmployee L updates r of
             None \<Rightarrow> Inl SQLITE_CONSTRAINT
           | Some r' \<Rightarrow>
               if Employee.email r' \<in> set (map Employee.email
                     (filter (\<lambda>x. Employee.id x \<noteq> Employee.id r) (employees db)))
               then Inl SQLITE_CONSTRAINT
               else Inr (1, db\<lparr> employees :=
                        map (\<lambda>x. if Employee.id x = Employee.id r then r' else x) (employees db) \<rparr>)))"

definition updateEmployee ::
  "libs \<Rightarrow> DB \<Rightarrow> int option \<Rightarrow> EmployeeUpdates \<Rightarrow> rejection + (Employee option \<times> DB)" where
  "updateEmployee L db i updates =
     (let fields = employeeFields updates in
      if length fields = 0 then Inr (None, db)
      else
        (case updateEmployeeRow L db updates i of
           Inl e \<Rightarrow> Inl e
         | Inr (changes, db') \<Rightarrow>
             if changes > 0 then Inr (getEmployeeById db' i, db') else Inr (None, db')))"

definition deleteEmployee :: "DB \<Rightarrow> int option \<Rightarrow> bool \<times> DB" where
  "deleteEmployee db i =
     (let changes = length (filter (\<lambda>r. Some (Employee.id r) = i) (employees db))
      in (changes > 0,
          db\<lparr> employees := filter (\<lambda>r. Some (Employee.id r) \<noteq> i) (employees db) \<rparr>))"

subsection \<open>Customers\<close>

text \<open>
  \<open>INSERT INTO customers\<close>: the text columns are NOT NULL, \<open>customerCode\<close> and
  \<open>email\<close> are UNIQUE, \<open>createdBy\<close> may be NULL. Its foreign key is not enforced:
  the code never switches foreign keys on, and SQLite leaves them off.
\<close>

definition insertCustomer ::
  "libs \<Rightarrow> DB \<Rightarrow> jsval list \<Rightarrow> int option \<Rightarrow> rejection + (Customer \<times> DB)" where
  "insertCustomer L db params owner =
     (case those (map (sqlText L) params) of
        Some [code, fn, ln, mob, dob, em] \<Rightarrow>
          if code \<in> set (map Customer.customerCode (customers db))
             \<or> em \<in> set (map Customer.email (customers db))
          then Inl SQLITE_CONSTRAINT
          else
            (let lastID = customers_seq db + 1;
                 row = \<lparr> Customer.id = lastID, Customer.customerCode = code,
                         Customer.firstname = fn, Customer.lastname = ln,
                         Customer.mobile = mob, Customer.dateOfBirth = dob,
                         Customer.email = em, Customer.createdBy = owner \<rparr>
             in Inr (row, db\<lparr> customers := customers db @ [row], customers_seq := lastID \<rparr>))
      | _ \<Rightarrow> Inl SQLITE_CONSTRAINT)"

text \<open>
  \<open>createCustomer(customer, createdBy?)\<close>: the second argument is a number or
  \<open>undefined\<close> (\<open>None\<close>), and \<open>createdBy || null\<close> is what is stored.
\<close>

definition or_null :: "int option \<Rightarrow> int option" where
  "or_null n = (case n of None \<Rightarrow> None | Some k \<Rightarrow> if k \<noteq> 0 then Some k else None)"

definition createCustomer ::
  "libs \<Rightarrow> DB \<Rightarrow> jsobj \<Rightarrow> int option \<Rightarrow> rejection + (Customer \<times> DB)" where
  "createCustomer L db customer owner =
     (let code = generateUniqueCustomerCode db in
      case insertCustomer L db
             [JStr code, get customer ''firstname'', get customer ''lastname'',
              get customer ''mobile'', get customer ''dateOfBirth'', get customer ''email'']
             (or_null owner) of
        Inl e \<Rightarrow> Inl e
      | Inr (row, db') \<Rightarrow> Inr (row, db'))"

definition getCustomerByCode :: "DB \<Rightarrow> string \<Rightarrow> Customer option" where
  "getCustomerByCode db code = find (\<lambda>r. Customer.customerCode r = code) (customers db)"

definition getCustomerById :: "DB \<Rightarrow> int option \<Rightarrow> Customer option" where
  "getCustomerById db i = find (\<lambda>r. Some (Customer.id r) = i) (customers db)"

text \<open>
  \<open>getAllCustomers(employeeId?)\<close>: the filter is added when the argument is truthy, so
  neither for \<open>undefined\<close> nor for 0. A row whose \<open>createdBy\<close> is NULL matches no id.
\<close>

definition getAllCustomers :: "DB \<Rightarrow> int option \<Rightarrow> Customer list" where
  "getAllCustomers db employeeId =
     (let rows =
        (case or_null employeeId of
           Some k \<Rightarrow> filter (\<lambda>r. Customer.createdBy r = Some k) (customers db)
         | None \<Rightarrow> customers db)
      in rev (sort_key Customer.id rows))"

definition customerFields :: "CustomerUpdates \<Rightarrow> string list" where
  "customerFields updates =
     map fst (filter (\<lambda>(key, v). v \<noteq> JUndefined)
       [(''firstname'', CustomerUpdates.firstname updates),
        (''lastname'', CustomerUpdates.lastname updates),
        (''mobile'', CustomerUpdates.mobile updates),
        (''dateOfBirth'', CustomerUpdates.dateOfBirth updates),
        (''email'', CustomerUpdates.email updates),
        (''createdBy'', CustomerUpdates.createdBy updates)])"

definition setCustomer :: "libs \<Rightarrow> CustomerUpdates \<Rightarrow> Customer \<Rightarrow> Customer option" where
  "setCustomer L updates r =
     (case those
        [setText L (CustomerUpdates.firstname updates) (Customer.firstname r),
         setText L (CustomerUpdates.lastname updates) (Customer.lastname r),
         setText L (CustomerUpdates.mobile updates) (Customer.mobile r),
         setText L (CustomerUpdates.dateOfBirth updates) (Customer.dateOfBirth r),
         setText L (CustomerUpdates.email updates) (Customer.email r)] of
        Some [fn, ln, mob, dob, em] \<Rightarrow>
          Some (r\<lparr> Customer.firstname := fn, Customer.lastname := ln, Customer.mobile := mob,
                  Customer.dateOfBirth := dob, Customer.email := em,
                  Customer.createdBy :=
                    (if CustomerUpdates.createdBy updates = JUndefined then Customer.createdBy r
                     else sqlInteger L (CustomerUpdates.createdBy updates)) \<rparr>)
      | _ \<Rightarrow> None)"

definition updateCustomerRow ::
  "libs \<Rightarrow> DB \<Rightarrow> CustomerUpdates \<Rightarrow> int option \<Rightarrow> rejection + (nat \<times> DB)" where
  "updateCustomerRow L db updates i =
     (case getCustomerById db i of
        None \<Rightarrow> Inr (0, db)
      | Some r \<Rightarrow>
          (case setCustomer L updates r of
             None \<Rightarrow> Inl SQLITE_CONSTRAINT
           | Some r' \<Rightarrow>
               if Customer.email r' \<in> set (map Customer.email
                     (filter (\<lambda>x. Customer.id x \<noteq> Customer.id r) (customers db)))
               then Inl SQLITE_CONSTRAINT
               else Inr (1, db\<lparr> customers :=
                        map (\<lambda>x. if Customer.id x = Customer.id r then r' else x) (customers db) \<rparr>)))"

definition updateCustomer ::
  "libs \<Rightarrow> DB \<Rightarrow> int option \<Rightarrow> CustomerUpdates \<Rightarrow> rejection + (Customer option \<times> DB)" where
  "updateCustomer L db i updates =
     (let fields = customerFields updates in
      if length fields = 0 then Inr (None, db)
      else
        (case updateCustomerRow L db updates i of
           Inl e \<Rightarrow> Inl e
         | Inr (changes, db') \<Rightarrow>
             if changes > 0 then Inr (getCustomerById db' i, db') else Inr (None, db')))"

definition deleteCustomer :: "DB \<Rightarrow> int option \<Rightarrow> bool \<times> DB" where
  "deleteCustomer db i =
     (let changes = length (filter (\<lambda>r. Some (Customer.id r) = i) (customers db))
      in (changes > 0,
          db\<lparr> customers := filter (\<lambda>r. Some (Customer.id r) \<noteq> i) (customers db) \<rparr>))"

subsection \<open>Bootstrap\<close>

text \<open>
  \<open>initTables\<close> on a database: the tables exist afterwards, and the administrator row
  is inserted unless a row with the code ADMIN001 is there. A refused insert is dropped
  (the statement has no callback).
\<close>

definition emptyDB :: DB where
  "emptyDB = \<lparr> employees = [], customers = [], employees_seq = 0, customers_seq = 0 \<rparr>"

definition initTables :: "libs \<Rightarrow> DB \<Rightarrow> DB" where
  "initTables L db =
     (case find (\<lambda>r. Employee.employeeCode r = ''ADMIN001'') (employees db) of
        Some row \<Rightarrow> db
      | None \<Rightarrow>
          (let hashedPassword = bcrypt_hash L ''admin123'' in
           case insertEmployee L db
                  [JStr ''ADMIN001'', JStr ''Admin'', JStr ''User'', JStr ''1234567890'',
                   JStr ''1990-01-01'', JStr ''admin@cms.com'', JStr hashedPassword,
                   JStr ''admin''] of
             Inl e \<Rightarrow> db
           | Inr (row, db') \<Rightarrow> db'))"

section \<open>Authentication\<close>

text \<open>
  \<open>JWT_SECRET\<close> is \<open>process.env.JWT_SECRET || '...'\<close>; the argument is the environment
  variable, \<open>None\<close> when it is not set.
\<close>

definition JWT_SECRET :: "string option \<Rightarrow> string" where
  "JWT_SECRET env =
     (case env of
        None \<Rightarrow> ''your-secret-key-change-in-production''
      | Some s \<Rightarrow> if s \<noteq> [] then s else ''your-secret-key-change-in-production'')"

text \<open>
  \<open>LoginCredentials\<close> declares two strings, but the login handler passes the properties
  of the JSON body as they come, so both are JavaScript values.
\<close>

record LoginCredentials =
  employeeCode :: jsval
  password :: jsval

record AuthResponse =
  success :: bool
  message :: string
  token :: "string option"
  user :: "EmployeeInfo option"

text \<open>
  \<open>bcrypt.compare(s, hash)\<close>: the promise rejects when \<open>s\<close> is not a string (the hash
  comes from a TEXT column and is one).
\<close>

definition comparePassword :: "libs \<Rightarrow> jsval \<Rightarrow> string \<Rightarrow> rejection + bool" where
  "comparePassword L pw hash =
     (case pw of JStr s \<Rightarrow> Inr (bcrypt_compare L s hash) | _ \<Rightarrow> Inl IllegalArguments)"

text \<open>
  \<open>authenticateUser\<close>. A rejected promise inside the \<open>try\<close> block is caught and
  answered with the message of the \<open>catch\<close> branch. The store of the model does not fail
  to answer, so the rejection of \<open>bcrypt.compare\<close> is the one that reaches it.
\<close>

definition authenticateUser ::
  "libs \<Rightarrow> string option \<Rightarrow> DB \<Rightarrow> LoginCredentials \<Rightarrow> AuthResponse" where
  "authenticateUser L env db credentials =
     (case getEmployeeByCode L db (LoginCredentials.employeeCode credentials) of
        None \<Rightarrow>
          \<lparr> success = False, message = ''Invalid employee code or password'',
            token = None, user = None \<rparr>
      | Some employee \<Rightarrow>
          (case comparePassword L (LoginCredentials.password credentials)
                  (Employee.password employee) of
             Inl e \<Rightarrow>
               \<lparr> success = False, message = ''An error occurred during authentication'',
                 token = None, user = None \<rparr>
           | Inr isPasswordValid \<Rightarrow>
               if \<not> isPasswordValid then
                 \<lparr> success = False, message = ''Invalid employee code or password'',
                   token = None, user = None \<rparr>
               else
                 (let tok = jwt_sign L
                        \<lparr> TokenPayload.employeeCode = Employee.employeeCode employee,
                          TokenPayload.email = Employee.email employee,
                          TokenPayload.id = Employee.id employee,
                          TokenPayload.role = Employee.role employee \<rparr>
                        (JWT_SECRET env)
                  in \<lparr> success = True, message = ''Login successful'',
                       token = Some tok, user = Some (withoutPassword employee) \<rparr>)))"

definition verifyToken :: "libs \<Rightarrow> string option \<Rightarrow> string \<Rightarrow> TokenPayload option" where
  "verifyToken L env tok = jwt_verify L tok (JWT_SECRET env)"

text \<open>
  A request, as far as the handlers read it: the \<open>cookie\<close> header, the parsed JSON body
  (\<open>None\<close> when \<open>request.json()\<close> rejects or yields \<open>null\<close>, so that destructuring
  throws; a body that is another non-object has no property) and the \<open>id\<close> parameter of the
  query string.
\<close>

record Request =
  header_cookie :: "string option"
  json_body :: "jsobj option"
  search_id :: "string option"

record AuthResult =
  user :: "TokenPayload option"
  error :: "string option"

definition parseCookies :: "string \<Rightarrow> string \<Rightarrow> string option" where
  "parseCookies cookieHeader =
     foldl (\<lambda>acc cookie.
              (case str_split CHR ''='' (trim cookie) of
                 [] \<Rightarrow> acc
               | key # rest \<Rightarrow> acc(key := (case rest of [] \<Rightarrow> None | v # _ \<Rightarrow> Some v))))
           (\<lambda>key. None)
           (str_split CHR '';'' cookieHeader)"

definition authenticateRequest :: "libs \<Rightarrow> string option \<Rightarrow> Request \<Rightarrow> AuthResult" where
  "authenticateRequest L env request =
     (case header_cookie request of
        None \<Rightarrow> \<lparr> AuthResult.user = None, error = Some ''No authentication token found'' \<rparr>
      | Some cookieHeader \<Rightarrow>
          if cookieHeader = [] then
            \<lparr> AuthResult.user = None, error = Some ''No authentication token found'' \<rparr>
          else
            (case parseCookies cookieHeader ''auth-token'' of
               None \<Rightarrow> \<lparr> AuthResult.user = None, error = Some ''No authentication token found'' \<rparr>
             | Some tok \<Rightarrow>
                 if tok = [] then
                   \<lparr> AuthResult.user = None, error = Some ''No authentication token found'' \<rparr>
                 else
                   (case verifyToken L env tok of
                      None \<Rightarrow> \<lparr> AuthResult.user = None, error = Some ''Invalid or expired token'' \<rparr>
                    | Some decoded \<Rightarrow> \<lparr> AuthResult.user = Some decoded, error = None \<rparr>)))"

section \<open>Request handlers\<close>

datatype payload =
    ErrorJson string
  | EmployeesJson "EmployeeInfo list"
  | EmployeeJson string EmployeeInfo
  | CustomersJson "Customer list"
  | CustomerJson string CustomerInfo
  | MessageJson string
  | LoginJson bool string "EmployeeInfo option"

datatype Response = Response (status: nat) (json: payload)

subsection \<open>Login\<close>

text \<open>
  The login handler: its response, and the value of the \<open>auth-token\<close> cookie when it
  sets one. It writes nothing to the store.
\<close>

definition login_POST ::
  "libs \<Rightarrow> string option \<Rightarrow> DB \<Rightarrow> Request \<Rightarrow> Response \<times> string option" where
  "login_POST L env db request =
     (case json_body request of
        None \<Rightarrow> (Response 500 (LoginJson False ''Internal server error'' None), None)
      | Some body \<Rightarrow>
          if \<not> truthy (get body ''employeeCode'') \<or> \<not> truthy (get body ''password'') then
            (Response 400 (LoginJson False ''Employee code and password are required'' None), None)
          else
            (let authResult = authenticateUser L env db
                   \<lparr> LoginCredentials.employeeCode = get body ''employeeCode'',
                     LoginCredentials.password = get body ''password'' \<rparr>
             in case AuthResponse.token authResult of
                  None \<Rightarrow> (Response 401 (LoginJson False (message authResult) None), None)
                | Some tok \<Rightarrow>
                    if success authResult \<and> tok \<noteq> [] then
                      (Response 200
                         (LoginJson True (message authResult) (AuthResponse.user authResult)),
                       Some tok)
                    else (Response 401 (LoginJson False (message authResult) None), None)))"

text \<open>\<open>x.length < n\<close>: only a string has a length, and \<open>undefined < n\<close> is false.\<close>

definition lengthBelow :: "jsval \<Rightarrow> nat \<Rightarrow> bool" where
  "lengthBelow v n = (case v of JStr s \<Rightarrow> length s < n | _ \<Rightarrow> False)"

subsection \<open>Employees\<close>

definition employees_GET :: "libs \<Rightarrow> string option \<Rightarrow> DB \<Rightarrow> Request \<Rightarrow> Response \<times> DB" where
  "employees_GET L env db request =
     (let authResult = authenticateRequest L env request in
      case AuthResult.user authResult of
        None \<Rightarrow> (Response 401 (ErrorJson ''Unauthorized''), db)
      | Some u \<Rightarrow>
          if TokenPayload.role u \<noteq> ''admin'' then
            (Response 403 (ErrorJson ''Access denied. Admin only.''), db)
          else (Response 200 (EmployeesJson (getAllEmployees db)), db))"

definition employees_POST :: "libs \<Rightarrow> string option \<Rightarrow> DB \<Rightarrow> Request \<Rightarrow> Response \<times> DB" where
  "employees_POST L env db request =
     (let authResult = authenticateRequest L env request in
      case AuthResult.user authResult of
        None \<Rightarrow> (Response 401 (ErrorJson ''Unauthorized''), db)
      | Some u \<Rightarrow>
          if TokenPayload.role u \<noteq> ''admin'' then
            (Response 403 (ErrorJson ''Access denied. Admin only.''), db)
          else
            (case json_body request of
               None \<Rightarrow> (Response 500 (ErrorJson ''Internal server error''), db)
             | Some body \<Rightarrow>
                 if \<not> truthy (get body ''firstname'') \<or> \<not> truthy (get body ''lastname'')
                    \<or> \<not> truthy (get body ''mobile'') \<or> \<not> truthy (get body ''dateOfBirth'')
                    \<or> \<not> truthy (get body ''email'') \<or> \<not> truthy (get body ''password'')
                 then (Response 400 (ErrorJson ''All fields are required''), db)
                 else if lengthBelow (get body ''password'') 6 then
                   (Response 400 (ErrorJson ''Password must be at least 6 characters''), db)
                 else
                   (case createEmployee L db
                           [(''firstname'', get body ''firstname''),
                            (''lastname'', get body ''lastname''),
                            (''mobile'', get body ''mobile''),
                            (''dateOfBirth'', get body ''dateOfBirth''),
                            (''email'', get body ''email''),
                            (''password'', get body ''password''),
                            (''role'', or_else (get body ''role'') (JStr ''user''))] of
                      Inl e \<Rightarrow> (Response 500 (ErrorJson ''Internal server error''), db)
                    | Inr (employee, db') \<Rightarrow>
                        (Response 201
                           (EmployeeJson ''Employee created successfully'' (withoutPassword employee)),
                         db'))))"

definition employeeUpdatesOf :: "jsobj \<Rightarrow> EmployeeUpdates" where
  "employeeUpdatesOf body =
     \<lparr> EmployeeUpdates.firstname = get body ''firstname'',
       EmployeeUpdates.lastname = get body ''lastname'',
       EmployeeUpdates.mobile = get body ''mobile'',
       EmployeeUpdates.dateOfBirth = get body ''dateOfBirth'',
       EmployeeUpdates.email = get body ''email'',
       EmployeeUpdates.role = get body ''role'' \<rparr>"

definition employees_PUT :: "libs \<Rightarrow> string option \<Rightarrow> DB \<Rightarrow> Request \<Rightarrow> Response \<times> DB" where
  "employees_PUT L env db request =
     (let authResult = authenticateRequest L env request in
      case AuthResult.user authResult of
        None \<Rightarrow> (Response 401 (ErrorJson ''Unauthorized''), db)
      | Some u \<Rightarrow>
          if TokenPayload.role u \<noteq> ''admin'' then
            (Response 403 (ErrorJson ''Access denied. Admin only.''), db)
          else
            (case json_body request of
               None \<Rightarrow> (Response 500 (ErrorJson ''Internal server error''), db)
             | Some body \<Rightarrow>
                 if \<not> truthy (get body ''id'') then
                   (Response 400 (ErrorJson ''Employee ID is required''), db)
                 else
                   (let updates = employeeUpdatesOf body in
                    if length (employeeFields updates) = 0 then
                      (Response 400 (ErrorJson ''No fields to update''), db)
                    else
                      (case updateEmployee L db (parseInt (get body ''id'')) updates of
                         Inl e \<Rightarrow> (Response 500 (ErrorJson ''Internal server error''), db)
                       | Inr (None, db') \<Rightarrow> (Response 404 (ErrorJson ''Employee not found''), db')
                       | Inr (Some updatedEmployee, db') \<Rightarrow>
                           (Response 200
                              (EmployeeJson ''Employee updated successfully''
                                 (withoutPassword updatedEmployee)),
                            db')))))"

definition employees_DELETE :: "libs \<Rightarrow> string option \<Rightarrow> DB \<Rightarrow> Request \<Rightarrow> Response \<times> DB" where
  "employees_DELETE L env db request =
     (let authResult = authenticateRequest L env request in
      case AuthResult.user authResult of
        None \<Rightarrow> (Response 401 (ErrorJson ''Unauthorized''), db)
      | Some u \<Rightarrow>
          if TokenPayload.role u \<noteq> ''admin'' then
            (Response 403 (ErrorJson ''Access denied. Admin only.''), db)
          else
            (case search_id request of
               None \<Rightarrow> (Response 400 (ErrorJson ''Employee ID is required''), db)
             | Some i \<Rightarrow>
                 if i = [] then (Response 400 (ErrorJson ''Employee ID is required''), db)
                 else
                   (case deleteEmployee db (parseIntString i) of
                      (False, db') \<Rightarrow> (Response 404 (ErrorJson ''Employee not found''), db')
                    | (True, db') \<Rightarrow> (Response 200 (MessageJson ''Employee deleted successfully''), db'))))"

subsection \<open>Customers\<close>

definition customerInfo :: "Customer \<Rightarrow> CustomerInfo" where
  "customerInfo c =
     \<lparr> CustomerInfo.id = Customer.id c, CustomerInfo.customerCode = Customer.customerCode c,
       CustomerInfo.firstname = Customer.firstname c, CustomerInfo.lastname = Customer.lastname c,
       CustomerInfo.mobile = Customer.mobile c, CustomerInfo.dateOfBirth = Customer.dateOfBirth c,
       CustomerInfo.email = Customer.email c \<rparr>"

definition customers_GET :: "libs \<Rightarrow> string option \<Rightarrow> DB \<Rightarrow> Request \<Rightarrow> Response \<times> DB" where
  "customers_GET L env db request =
     (let authResult = authenticateRequest L env request in
      case AuthResult.user authResult of
        None \<Rightarrow> (Response 401 (ErrorJson ''Unauthorized''), db)
      | Some u \<Rightarrow>
          (let result =
                 getAllCustomers db
                   (if TokenPayload.role u = ''admin'' then None else Some (TokenPayload.id u))
           in (Response 200 (CustomersJson result), db)))"

definition customers_POST :: "libs \<Rightarrow> string option \<Rightarrow> DB \<Rightarrow> Request \<Rightarrow> Response \<times> DB" where
  "customers_POST L env db request =
     (let authResult = authenticateRequest L env request in
      case AuthResult.user authResult of
        None \<Rightarrow> (Response 401 (ErrorJson ''Unauthorized''), db)
      | Some u \<Rightarrow>
          (case json_body request of
             None \<Rightarrow> (Response 500 (ErrorJson ''Internal server error''), db)
           | Some body \<Rightarrow>
               if \<not> truthy (get body ''firstname'') \<or> \<not> truthy (get body ''lastname'')
                  \<or> \<not> truthy (get body ''mobile'') \<or> \<not> truthy (get body ''dateOfBirth'')
                  \<or> \<not> truthy (get body ''email'')
               then (Response 400 (ErrorJson ''All fields are required''), db)
               else
                 (case createCustomer L db
                         [(''firstname'', get body ''firstname''),
                          (''lastname'', get body ''lastname''),
                          (''mobile'', get body ''mobile''),
                          (''dateOfBirth'', get body ''dateOfBirth''),
                          (''email'', get body ''email'')]
                         (Some (TokenPayload.id u)) of
                    Inl e \<Rightarrow> (Response 500 (ErrorJson ''Internal server error''), db)
                  | Inr (customer, db') \<Rightarrow>
                      (Response 201
                         (CustomerJson ''Customer created successfully'' (customerInfo customer)),
                       db'))))"

definition customerUpdatesOf :: "jsobj \<Rightarrow> CustomerUpdates" where
  "customerUpdatesOf body =
     \<lparr> CustomerUpdates.firstname = get body ''firstname'',
       CustomerUpdates.lastname = get body ''lastname'',
       CustomerUpdates.mobile = get body ''mobile'',
       CustomerUpdates.dateOfBirth = get body ''dateOfBirth'',
       CustomerUpdates.email = get body ''email'',
       CustomerUpdates.createdBy = JUndefined \<rparr>"

definition customers_PUT :: "libs \<Rightarrow> string option \<Rightarrow> DB \<Rightarrow> Request \<Rightarrow> Response \<times> DB" where
  "customers_PUT L env db request =
     (let authResult = authenticateRequest L env request in
      case AuthResult.user authResult of
        None \<Rightarrow> (Response 401 (ErrorJson ''Unauthorized''), db)
      | Some u \<Rightarrow>
          (case json_body request of
             None \<Rightarrow> (Response 500 (ErrorJson ''Internal server error''), db)
           | Some body \<Rightarrow>
               if \<not> truthy (get body ''id'') then
                 (Response 400 (ErrorJson ''Customer ID is required''), db)
               else if TokenPayload.role u \<noteq> ''admin''
                    \<and> (case getCustomerById db (parseInt (get body ''id'')) of
                          None \<Rightarrow> True
                        | Some customer \<Rightarrow> Customer.createdBy customer \<noteq> Some (TokenPayload.id u))
               then (Response 403 (ErrorJson ''Access denied''), db)
               else
                 (let updates = customerUpdatesOf body in
                  if length (customerFields updates) = 0 then
                    (Response 400 (ErrorJson ''No fields to update''), db)
                  else
                    (case updateCustomer L db (parseInt (get body ''id'')) updates of
                       Inl e \<Rightarrow> (Response 500 (ErrorJson ''Internal server error''), db)
                     | Inr (None, db') \<Rightarrow> (Response 404 (ErrorJson ''Customer not found''), db')
                     | Inr (Some updatedCustomer, db') \<Rightarrow>
                         (Response 200
                            (CustomerJson ''Customer updated successfully''
                               (customerInfo updatedCustomer)),
                          db')))))"

definition customers_DELETE :: "libs \<Rightarrow> string option \<Rightarrow> DB \<Rightarrow> Request \<Rightarrow> Response \<times> DB" where
  "customers_DELETE L env db request =
     (let authResult = authenticateRequest L env request in
      case AuthResult.user authResult of
        None \<Rightarrow> (Response 401 (ErrorJson ''Unauthorized''), db)
      | Some u \<Rightarrow>
          (case search_id request of
             None \<Rightarrow> (Response 400 (ErrorJson ''Customer ID is required''), db)
           | Some i \<Rightarrow>
               if i = [] then (Response 400 (ErrorJson ''Customer ID is required''), db)
               else if TokenPayload.role u \<noteq> ''admin''
                    \<and> (case getCustomerById db (parseIntString i) of
                          None \<Rightarrow> True
                        | Some customer \<Rightarrow> Customer.createdBy customer \<noteq> Some (TokenPayload.id u))
               then (Response 403 (ErrorJson ''Access denied''), db)
               else
                 (case deleteCustomer db (parseIntString i) of
                    (False, db') \<Rightarrow> (Response 404 (ErrorJson ''Customer not found''), db')
                  | (True, db') \<Rightarrow> (Response 200 (MessageJson ''Customer deleted successfully''), db'))))"

text \<open>
  Example libraries and a concrete database for evaluating the definitions: a hash that
  tags the password, a token that is the employee code, and a verifier that knows the
  tokens of the administrator and of two standard employees.
\<close>

definition demoLibs :: libs where
  "demoLibs =
     \<lparr> bcrypt_hash = (\<lambda>s. ''#'' @ s),
       bcrypt_compare = (\<lambda>s h. h = ''#'' @ s),
       jwt_sign = (\<lambda>p secret. TokenPayload.employeeCode p),
       jwt_verify = (\<lambda>tok secret.
          if tok = ''ADMIN001'' then
            Some \<lparr> TokenPayload.employeeCode = ''ADMIN001'', TokenPayload.email = ''admin@cms.com'',
                   TokenPayload.id = 1, TokenPayload.role = ''admin'' \<rparr>
          else if tok = ''EMP002'' then
            Some \<lparr> TokenPayload.employeeCode = ''EMP002'', TokenPayload.email = ''a@cms.com'',
                   TokenPayload.id = 2, TokenPayload.role = ''user'' \<rparr>
          else if tok = ''EMP003'' then
            Some \<lparr> TokenPayload.employeeCode = ''EMP003'', TokenPayload.email = ''b@cms.com'',
                   TokenPayload.id = 3, TokenPayload.role = ''user'' \<rparr>
          else None),
       sqlite_text = toString,
       sqlite_integer = parseInt \<rparr>"

definition demoEmployee :: "string \<Rightarrow> jsobj" where
  "demoEmployee mail =
     [(''firstname'', JStr ''Asha''), (''lastname'', JStr ''Rao''), (''mobile'', JStr ''5550100''),
      (''dateOfBirth'', JStr ''1995-05-05''), (''email'', JStr mail), (''password'', JStr ''secret1'')]"

definition demoDB :: DB where
  "demoDB = initTables demoLibs emptyDB"

definition demoRequest :: "string \<Rightarrow> jsobj \<Rightarrow> string \<Rightarrow> Request" where
  "demoRequest tok body i =
     \<lparr> header_cookie = Some (''theme=dark; auth-token='' @ tok), json_body = Some body,
       search_id = Some i \<rparr>"

definition demoStaff :: "int \<Rightarrow> string \<Rightarrow> string \<Rightarrow> Employee" where
  "demoStaff i code mail =
     \<lparr> Employee.id = i, Employee.employeeCode = code, Employee.firstname = ''Asha'',
       Employee.lastname = ''Rao'', Employee.mobile = ''5550100'',
       Employee.dateOfBirth = ''1995-05-05'', Employee.email = mail,
       Employee.password = ''#secret1'', Employee.role = ''user'' \<rparr>"

definition demoCustomer :: "int \<Rightarrow> string \<Rightarrow> string \<Rightarrow> int option \<Rightarrow> Customer" where
  "demoCustomer i code mail owner =
     \<lparr> Customer.id = i, Customer.customerCode = code, Customer.firstname = ''Ravi'',
       Customer.lastname = ''Iyer'', Customer.mobile = ''5550111'',
       Customer.dateOfBirth = ''1988-08-08'', Customer.email = mail,
       Customer.createdBy = owner \<rparr>"

text \<open>
  A database with the administrator, two standard employees (ids 2 and 3) and three
  customers: one of each employee and one without owner.
\<close>

definition demoStore :: DB where
  "demoStore =
     \<lparr> employees = employees demoDB @
         [demoStaff 2 ''EMP002'' ''a@cms.com'', demoStaff 3 ''EMP003'' ''x@y.com''],
       customers =
         [demoCustomer 1 ''CUST001'' ''ravi@shop.com'' (Some 2),
          demoCustomer 2 ''CUST002'' ''meena@shop.com'' (Some 3),
          demoCustomer 3 ''CUST003'' ''walkin@shop.com'' None],
       employees_seq = 3, customers_seq = 3 \<rparr>"

definition demoUser :: "int \<Rightarrow> TokenPayload" where
  "demoUser i =
     (if i = 2 then
        \<lparr> TokenPayload.employeeCode = ''EMP002'', TokenPayload.email = ''a@cms.com'',
          TokenPayload.id = 2, TokenPayload.role = ''user'' \<rparr>
      else if i = 3 then
        \<lparr> TokenPayload.employeeCode = ''EMP003'', TokenPayload.email = ''b@cms.com'',
          TokenPayload.id = 3, TokenPayload.role = ''user'' \<rparr>
      else
        \<lparr> TokenPayload.employeeCode = ''ADMIN001'', TokenPayload.email = ''admin@cms.com'',
          TokenPayload.id = 1, TokenPayload.role = ''admin'' \<rparr>)"

text \<open>
  The shape every reachable database has: ids are positive, no larger than the table's
  sequence, and distinct (they are assigned by AUTOINCREMENT and are a primary key).
\<close>

definition wf_db :: "DB \<Rightarrow> bool" where
  "wf_db db \<longleftrightarrow>
     0 \<le> employees_seq db \<and> 0 \<le> customers_seq db
     \<and> list_all (\<lambda>r. 0 < Employee.id r \<and> Employee.id r \<le> employees_seq db) (employees db)
     \<and> list_all (\<lambda>r. 0 < Customer.id r \<and> Customer.id r \<le> customers_seq db) (customers db)
     \<and> distinct (map Employee.id (employees db))
     \<and> distinct (map Customer.id (customers db))"

section \<open>Reachable databases\<close>

lemma wf_emptyDB: "wf_db emptyDB"
  by (simp add: wf_db_def emptyDB_def)

lemma insertEmployee_Inr:
  assumes "insertEmployee L db params = Inr (row, db')"
  shows "db' = db\<lparr> employees := employees db @ [row], employees_seq := employees_seq db + 1 \<rparr>
         \<and> Employee.id row = employees_seq db + 1"
  using assms
  by (auto simp: insertEmployee_def Let_def split: option.splits list.splits if_splits)

lemma insertEmployee_wf:
  assumes "insertEmployee L db params = Inr (row, db')" and "wf_db db"
  shows "wf_db db'"
proof -
  have "\<forall>r\<in>set (employees db). Employee.id r < employees_seq db + 1"
    using assms(2) by (auto simp: wf_db_def list_all_iff)
  then show ?thesis
    using insertEmployee_Inr [OF assms(1)] assms(2)
    by (auto simp: wf_db_def list_all_iff)
qed

lemma insertCustomer_Inr:
  assumes "insertCustomer L db params owner = Inr (row, db')"
  shows "db' = db\<lparr> customers := customers db @ [row], customers_seq := customers_seq db + 1 \<rparr>
         \<and> Customer.id row = customers_seq db + 1 \<and> Customer.createdBy row = owner"
  using assms
  by (auto simp: insertCustomer_def Let_def split: option.splits list.splits if_splits)

lemma insertCustomer_wf:
  assumes "insertCustomer L db params owner = Inr (row, db')" and "wf_db db"
  shows "wf_db db'"
proof -
  have "\<forall>r\<in>set (customers db). Customer.id r < customers_seq db + 1"
    using assms(2) by (auto simp: wf_db_def list_all_iff)
  then show ?thesis
    using insertCustomer_Inr [OF assms(1)] assms(2)
    by (auto simp: wf_db_def list_all_iff)
qed

lemma initTables_wf: "wf_db db \<Longrightarrow> wf_db (initTables L db)"
  by (auto simp: initTables_def Let_def split: option.splits sum.splits dest: insertEmployee_wf)

lemma demoDB_wf: "wf_db demoDB"
  unfolding demoDB_def by (rule initTables_wf [OF wf_emptyDB])


lemma setEmployee_id: "setEmployee L updates r = Some r' \<Longrightarrow> Employee.id r' = Employee.id r"
  by (auto simp: setEmployee_def split: option.splits list.splits)

lemma setCustomer_id: "setCustomer L updates r = Some r' \<Longrightarrow> Customer.id r' = Customer.id r"
  by (auto simp: setCustomer_def split: option.splits list.splits)

lemma map_id_replace:
  "f r' = i \<Longrightarrow> map f (map (\<lambda>x. if f x = i then r' else x) xs) = map f xs"
  by (induction xs) auto

lemma updateEmployeeRow_ids:
  assumes "updateEmployeeRow L db updates i = Inr (n, db')"
  shows "map Employee.id (employees db') = map Employee.id (employees db)
         \<and> customers db' = customers db \<and> employees_seq db' = employees_seq db
         \<and> customers_seq db' = customers_seq db"
  using assms
  by (auto simp: updateEmployeeRow_def map_id_replace o_def dest!: setEmployee_id
           split: option.splits if_splits)

lemma updateCustomerRow_ids:
  assumes "updateCustomerRow L db updates i = Inr (n, db')"
  shows "map Customer.id (customers db') = map Customer.id (customers db)
         \<and> employees db' = employees db \<and> employees_seq db' = employees_seq db
         \<and> customers_seq db' = customers_seq db"
  using assms
  by (auto simp: updateCustomerRow_def map_id_replace o_def dest!: setCustomer_id
           split: option.splits if_splits)

lemma wf_db_ids:
  "wf_db db \<longleftrightarrow>
     0 \<le> employees_seq db \<and> 0 \<le> customers_seq db
     \<and> (\<forall>i\<in>set (map Employee.id (employees db)). 0 < i \<and> i \<le> employees_seq db)
     \<and> (\<forall>i\<in>set (map Customer.id (customers db)). 0 < i \<and> i \<le> customers_seq db)
     \<and> distinct (map Employee.id (employees db))
     \<and> distinct (map Customer.id (customers db))"
  by (auto simp: wf_db_def list_all_iff)

lemma updateEmployee_wf:
  assumes "updateEmployee L db i updates = Inr (res, db')" and "wf_db db"
  shows "wf_db db'"
proof (cases "updateEmployeeRow L db updates i")
  case (Inl e)
  with assms show ?thesis
    by (auto simp: updateEmployee_def Let_def split: if_splits)
next
  case (Inr p)
  obtain n d where p: "p = (n, d)" by (cases p)
  have "db' = db \<or> db' = d"
    using assms(1) Inr p by (auto simp: updateEmployee_def Let_def split: if_splits)
  moreover have "wf_db d"
    using updateEmployeeRow_ids [of L db updates i n d] Inr p assms(2)
    by (simp add: wf_db_ids)
  ultimately show ?thesis using assms(2) by auto
qed

lemma updateCustomer_wf:
  assumes "updateCustomer L db i updates = Inr (res, db')" and "wf_db db"
  shows "wf_db db'"
proof (cases "updateCustomerRow L db updates i")
  case (Inl e)
  with assms show ?thesis
    by (auto simp: updateCustomer_def Let_def split: if_splits)
next
  case (Inr p)
  obtain n d where p: "p = (n, d)" by (cases p)
  have "db' = db \<or> db' = d"
    using assms(1) Inr p by (auto simp: updateCustomer_def Let_def split: if_splits)
  moreover have "wf_db d"
    using updateCustomerRow_ids [of L db updates i n d] Inr p assms(2)
    by (simp add: wf_db_ids)
  ultimately show ?thesis using assms(2) by auto
qed

lemma deleteEmployee_wf: "wf_db db \<Longrightarrow> wf_db (snd (deleteEmployee db i))"
  by (auto simp: deleteEmployee_def wf_db_def Let_def list_all_iff distinct_map_filter)

lemma deleteCustomer_wf: "wf_db db \<Longrightarrow> wf_db (snd (deleteCustomer db i))"
  by (auto simp: deleteCustomer_def wf_db_def Let_def list_all_iff distinct_map_filter)

lemma createEmployee_wf:
  "createEmployee L db employee = Inr (row, db') \<Longrightarrow> wf_db db \<Longrightarrow> wf_db db'"
  by (auto simp: createEmployee_def Let_def split: sum.splits dest: insertEmployee_wf)

lemma createCustomer_wf:
  "createCustomer L db customer owner = Inr (row, db') \<Longrightarrow> wf_db db \<Longrightarrow> wf_db db'"
  by (auto simp: createCustomer_def Let_def split: sum.splits dest: insertCustomer_wf)

text \<open>Every handler keeps the shape.\<close>

lemma employees_GET_wf: "wf_db db \<Longrightarrow> wf_db (snd (employees_GET L env db request))"
  by (auto simp: employees_GET_def Let_def split: option.splits)

lemma employees_POST_wf: "wf_db db \<Longrightarrow> wf_db (snd (employees_POST L env db request))"
  by (auto simp: employees_POST_def Let_def split: option.splits sum.splits dest: createEmployee_wf)

lemma employees_PUT_wf: "wf_db db \<Longrightarrow> wf_db (snd (employees_PUT L env db request))"
  by (auto simp: employees_PUT_def Let_def split: option.splits sum.splits dest: updateEmployee_wf)

lemma employees_DELETE_wf: "wf_db db \<Longrightarrow> wf_db (snd (employees_DELETE L env db request))"
  using deleteEmployee_wf [of db]
  by (auto simp: employees_DELETE_def Let_def split: option.splits prod.splits bool.splits)
     (metis snd_conv)+

lemma customers_GET_wf: "wf_db db \<Longrightarrow> wf_db (snd (customers_GET L env db request))"
  by (auto simp: customers_GET_def Let_def split: option.splits)

lemma customers_POST_wf: "wf_db db \<Longrightarrow> wf_db (snd (customers_POST L env db request))"
  by (auto simp: customers_POST_def Let_def split: option.splits sum.splits dest: createCustomer_wf)

lemma customers_PUT_wf: "wf_db db \<Longrightarrow> wf_db (snd (customers_PUT L env db request))"
  by (auto simp: customers_PUT_def Let_def split: option.splits sum.splits dest: updateCustomer_wf)

lemma customers_DELETE_wf: "wf_db db \<Longrightarrow> wf_db (snd (customers_DELETE L env db request))"
  using deleteCustomer_wf [of db]
  by (auto simp: customers_DELETE_def Let_def split: option.splits prod.splits bool.splits)
     (metis snd_conv)+

text \<open>An identity that \<open>authenticateUser\<close> signs has a positive id.\<close>

lemma find_Some_set: "find P xs = Some x \<Longrightarrow> x \<in> set xs \<and> P x"
  by (induction xs) (auto split: if_splits)

lemma authenticateUser_id_positive:
  assumes "wf_db db" and "AuthResponse.user (authenticateUser L env db credentials) = Some info"
  shows "0 < EmployeeInfo.id info"
  using assms
  by (auto simp: authenticateUser_def getEmployeeByCode_def Let_def withoutPassword_def
                 wf_db_def list_all_iff
           split: option.splits sum.splits if_splits dest!: find_Some_set)

section \<open>Code generation and deletion\<close>

lemma generateUniqueEmployeeCode_count:
  "length (employees db) = length (employees db') \<Longrightarrow>
   generateUniqueEmployeeCode db = generateUniqueEmployeeCode db'"
  by (simp add: generateUniqueEmployeeCode_def)

lemma generateUniqueCustomerCode_count:
  "length (customers db) = length (customers db') \<Longrightarrow>
   generateUniqueCustomerCode db = generateUniqueCustomerCode db'"
  by (simp add: generateUniqueCustomerCode_def)

text \<open>
  The code of a creation is the count of rows plus one, so whenever a creation is followed
  by the deletion of the new record and by another creation, the second creation repeats
  the first one's code for another id.
\<close>

lemma createEmployee_Inr:
  assumes "createEmployee L db employee = Inr (row, db')"
  shows "Employee.employeeCode row = generateUniqueEmployeeCode db
         \<and> Employee.id row = employees_seq db + 1
         \<and> employees db' = employees db @ [row]"
  using assms
  by (auto simp: createEmployee_def insertEmployee_def sqlText_def Let_def
           split: sum.splits option.splits list.splits if_splits)

lemma createEmployee_code_after_delete:
  assumes "wf_db db"
    and "createEmployee L db a = Inr (ra, db1)"
    and "deleteEmployee db1 (Some (Employee.id ra)) = (ok, db2)"
    and "createEmployee L db2 b = Inr (rb, db3)"
  shows "Employee.employeeCode rb = Employee.employeeCode ra \<and> Employee.id rb \<noteq> Employee.id ra"
proof -
  note A = createEmployee_Inr [OF assms(2)]
  have old: "\<forall>r\<in>set (employees db). Employee.id r \<noteq> Employee.id ra"
    using assms(1) A by (auto simp: wf_db_def list_all_iff)
  have e2: "employees db2 = employees db \<and> employees_seq db2 = employees_seq db1"
    using assms(3) A old by (auto simp: deleteEmployee_def Let_def filter_id_conv)
  have s1: "employees_seq db1 = employees_seq db + 1"
    using assms(2)
    by (auto simp: createEmployee_def Let_def split: sum.splits dest!: insertEmployee_Inr)
  note B = createEmployee_Inr [OF assms(4)]
  show ?thesis
    using A B e2 s1 generateUniqueEmployeeCode_count [of db2 db] by simp
qed

lemma createCustomer_Inr:
  assumes "createCustomer L db customer owner = Inr (row, db')"
  shows "Customer.customerCode row = generateUniqueCustomerCode db
         \<and> Customer.id row = customers_seq db + 1
         \<and> customers db' = customers db @ [row]"
  using assms
  by (auto simp: createCustomer_def insertCustomer_def sqlText_def Let_def
           split: sum.splits option.splits list.splits if_splits)

lemma createCustomer_code_after_delete:
  assumes "wf_db db"
    and "createCustomer L db a oa = Inr (ra, db1)"
    and "deleteCustomer db1 (Some (Customer.id ra)) = (ok, db2)"
    and "createCustomer L db2 b ob = Inr (rb, db3)"
  shows "Customer.customerCode rb = Customer.customerCode ra \<and> Customer.id rb \<noteq> Customer.id ra"
proof -
  note A = createCustomer_Inr [OF assms(2)]
  have old: "\<forall>r\<in>set (customers db). Customer.id r \<noteq> Customer.id ra"
    using assms(1) A by (auto simp: wf_db_def list_all_iff)
  have e2: "customers db2 = customers db \<and> customers_seq db2 = customers_seq db1"
    using assms(3) A old by (auto simp: deleteCustomer_def Let_def filter_id_conv)
  have s1: "customers_seq db1 = customers_seq db + 1"
    using assms(2)
    by (auto simp: createCustomer_def Let_def split: sum.splits dest!: insertCustomer_Inr)
  note B = createCustomer_Inr [OF assms(4)]
  show ?thesis
    using A B e2 s1 generateUniqueCustomerCode_count [of db2 db] by simp
qed

text \<open>
  Claim C1. Every successful creation is to return a code that was never issued before in
  its collection, also not to a record that was deleted since. The code is formed from
  the number of rows, so it is issued again after a deletion: on the bootstrapped
  database, creating an employee yields EMP002; after deleting that employee, the next
  creation succeeds and yields EMP002 again, for another id. The same happens with
  CUST001 in the customer collection.
\<close>

theorem generateUniqueCode_reissued_after_delete:
  "createEmployee demoLibs demoDB (demoEmployee ''a@cms.com'') =
     Inr (\<lparr> Employee.id = 2, Employee.employeeCode = ''EMP002'', Employee.firstname = ''Asha'',
            Employee.lastname = ''Rao'', Employee.mobile = ''5550100'',
            Employee.dateOfBirth = ''1995-05-05'', Employee.email = ''a@cms.com'',
            Employee.password = ''#secret1'', Employee.role = ''user'' \<rparr>,
          demoDB\<lparr> employees := employees demoDB @
                    [\<lparr> Employee.id = 2, Employee.employeeCode = ''EMP002'',
                       Employee.firstname = ''Asha'', Employee.lastname = ''Rao'',
                       Employee.mobile = ''5550100'', Employee.dateOfBirth = ''1995-05-05'',
                       Employee.email = ''a@cms.com'', Employee.password = ''#secret1'',
                       Employee.role = ''user'' \<rparr>],
                  employees_seq := 2 \<rparr>)
   \<and> deleteEmployee
         (demoDB\<lparr> employees := employees demoDB @
                    [\<lparr> Employee.id = 2, Employee.employeeCode = ''EMP002'',
                       Employee.firstname = ''Asha'', Employee.lastname = ''Rao'',
                       Employee.mobile = ''5550100'', Employee.dateOfBirth = ''1995-05-05'',
                       Employee.email = ''a@cms.com'', Employee.password = ''#secret1'',
                       Employee.role = ''user'' \<rparr>],
                  employees_seq := 2 \<rparr>) (Some 2)
       = (True, demoDB\<lparr> employees_seq := 2 \<rparr>)
   \<and> map_sum (\<lambda>e. e) (\<lambda>(row, db). (Employee.id row, Employee.employeeCode row))
         (createEmployee demoLibs (demoDB\<lparr> employees_seq := 2 \<rparr>) (demoEmployee ''b@cms.com''))
       = Inr (3, ''EMP002'')
   \<and> map_sum (\<lambda>e. e) (\<lambda>(row, db). (Customer.id row, Customer.customerCode row))
         (createCustomer demoLibs demoDB (demoEmployee ''c@cms.com'') (Some 2))
       = Inr (1, ''CUST001'')
   \<and> deleteCustomer
         (snd (projr (createCustomer demoLibs demoDB (demoEmployee ''c@cms.com'') (Some 2))))
         (Some 1)
       = (True, demoDB\<lparr> customers_seq := 1 \<rparr>)
   \<and> map_sum (\<lambda>e. e) (\<lambda>(row, db). (Customer.id row, Customer.customerCode row))
         (createCustomer demoLibs (demoDB\<lparr> customers_seq := 1 \<rparr>) (demoEmployee ''d@cms.com'') (Some 2))
       = Inr (2, ''CUST001'')"
  by code_simp

section \<open>Credential verification\<close>

text \<open>
  With a secret that is a string, a code that no employee has and a known code whose
  secret does not match get the same answer.
\<close>

lemma authenticateUser_unknown_code:
  "getEmployeeByCode L db (LoginCredentials.employeeCode credentials) = None \<Longrightarrow>
   authenticateUser L env db credentials =
     \<lparr> success = False, message = ''Invalid employee code or password'',
       token = None, user = None \<rparr>"
  by (simp add: authenticateUser_def)

lemma authenticateUser_wrong_secret:
  "getEmployeeByCode L db (LoginCredentials.employeeCode credentials) = Some employee \<Longrightarrow>
   LoginCredentials.password credentials = JStr s \<Longrightarrow>
   \<not> bcrypt_compare L s (Employee.password employee) \<Longrightarrow>
   authenticateUser L env db credentials =
     \<lparr> success = False, message = ''Invalid employee code or password'',
       token = None, user = None \<rparr>"
  by (simp add: authenticateUser_def comparePassword_def)

lemma authenticateUser_secret_not_string:
  "getEmployeeByCode L db (LoginCredentials.employeeCode credentials) = Some employee \<Longrightarrow>
   \<forall>s. LoginCredentials.password credentials \<noteq> JStr s \<Longrightarrow>
   authenticateUser L env db credentials =
     \<lparr> success = False, message = ''An error occurred during authentication'',
       token = None, user = None \<rparr>"
  by (auto simp: authenticateUser_def comparePassword_def split: jsval.splits)

text \<open>
  Claim C4. Credential verification is to give the same failure for an unknown code as
  for a known code with a wrong secret. The login handler passes the body's
  \<open>password\<close> untyped, and a secret that is a number makes \<open>bcrypt.compare\<close> reject
  once a record is found: for the known code ADMIN001 the answer is 401 with 'An error
  occurred during authentication', for the unknown code EMP999 it is 401 with 'Invalid
  employee code or password'. The two failures differ, so the caller learns which codes
  exist.
\<close>

theorem login_failure_reveals_known_code:
  "login_POST demoLibs None demoDB
       \<lparr> header_cookie = None,
         json_body = Some [(''employeeCode'', JStr ''ADMIN001''), (''password'', JNum 12345678)],
         search_id = None \<rparr>
     = (Response 401 (LoginJson False ''An error occurred during authentication'' None), None)
   \<and> login_POST demoLibs None demoDB
       \<lparr> header_cookie = None,
         json_body = Some [(''employeeCode'', JStr ''EMP999''), (''password'', JNum 12345678)],
         search_id = None \<rparr>
     = (Response 401 (LoginJson False ''Invalid employee code or password'' None), None)
   \<and> authenticateUser demoLibs None demoDB
       \<lparr> LoginCredentials.employeeCode = JStr ''ADMIN001'',
         LoginCredentials.password = JNum 12345678 \<rparr>
     = \<lparr> success = False, message = ''An error occurred during authentication'',
         token = None, user = None \<rparr>
   \<and> authenticateUser demoLibs None demoDB
       \<lparr> LoginCredentials.employeeCode = JStr ''EMP999'',
         LoginCredentials.password = JNum 12345678 \<rparr>
     = \<lparr> success = False, message = ''Invalid employee code or password'',
         token = None, user = None \<rparr>"
  by code_simp

theorem login_failure_reveals_known_code_witness:
  "fst (login_POST demoLibs None demoDB
       \<lparr> header_cookie = None,
         json_body = Some [(''employeeCode'', JStr ''ADMIN001''), (''password'', JNum 12345678)],
         search_id = None \<rparr>)
   \<noteq> fst (login_POST demoLibs None demoDB
       \<lparr> header_cookie = None,
         json_body = Some [(''employeeCode'', JStr ''EMP999''), (''password'', JNum 12345678)],
         search_id = None \<rparr>)"
  using login_failure_reveals_known_code by simp

section \<open>Staff operations\<close>

lemma authenticateRequest_user:
  "AuthResult.user (authenticateRequest L env request) =
     (case header_cookie request of
        None \<Rightarrow> None
      | Some cookieHeader \<Rightarrow>
          if cookieHeader = [] then None
          else (case parseCookies cookieHeader ''auth-token'' of
                  None \<Rightarrow> None
                | Some tok \<Rightarrow> if tok = [] then None else verifyToken L env tok))"
  by (simp add: authenticateRequest_def split: option.splits)

text \<open>
  Claim C5. Each of the four staff handlers (listing, creation, update, deletion) answers
  401 and changes nothing when the request carries no verified identity, answers 403 and
  changes nothing when the verified identity has any role other than 'admin', and gets
  past both checks only for the role 'admin' (the listing then returns every employee).
\<close>

theorem staff_operations_admin_only:
  "(AuthResult.user (authenticateRequest L env request) = None \<longrightarrow>
      employees_GET L env db request = (Response 401 (ErrorJson ''Unauthorized''), db)
    \<and> employees_POST L env db request = (Response 401 (ErrorJson ''Unauthorized''), db)
    \<and> employees_PUT L env db request = (Response 401 (ErrorJson ''Unauthorized''), db)
    \<and> employees_DELETE L env db request = (Response 401 (ErrorJson ''Unauthorized''), db))
   \<and> (\<forall>u. AuthResult.user (authenticateRequest L env request) = Some u
          \<and> TokenPayload.role u \<noteq> ''admin'' \<longrightarrow>
      employees_GET L env db request = (Response 403 (ErrorJson ''Access denied. Admin only.''), db)
    \<and> employees_POST L env db request = (Response 403 (ErrorJson ''Access denied. Admin only.''), db)
    \<and> employees_PUT L env db request = (Response 403 (ErrorJson ''Access denied. Admin only.''), db)
    \<and> employees_DELETE L env db request = (Response 403 (ErrorJson ''Access denied. Admin only.''), db))
   \<and> (\<forall>u. AuthResult.user (authenticateRequest L env request) = Some u
          \<and> TokenPayload.role u = ''admin'' \<longrightarrow>
      employees_GET L env db request = (Response 200 (EmployeesJson (getAllEmployees db)), db)
    \<and> status (fst (employees_POST L env db request)) \<notin> {401, 403}
    \<and> status (fst (employees_PUT L env db request)) \<notin> {401, 403}
    \<and> status (fst (employees_DELETE L env db request)) \<notin> {401, 403})"
proof (intro conjI impI allI)
  assume "AuthResult.user (authenticateRequest L env request) = None"
  then show "employees_GET L env db request = (Response 401 (ErrorJson ''Unauthorized''), db)"
    and "employees_POST L env db request = (Response 401 (ErrorJson ''Unauthorized''), db)"
    and "employees_PUT L env db request = (Response 401 (ErrorJson ''Unauthorized''), db)"
    and "employees_DELETE L env db request = (Response 401 (ErrorJson ''Unauthorized''), db)"
    by (simp_all add: employees_GET_def employees_POST_def employees_PUT_def employees_DELETE_def)
next
  fix u
  assume "AuthResult.user (authenticateRequest L env request) = Some u
          \<and> TokenPayload.role u \<noteq> ''admin''"
  then show "employees_GET L env db request = (Response 403 (ErrorJson ''Access denied. Admin only.''), db)"
    and "employees_POST L env db request = (Response 403 (ErrorJson ''Access denied. Admin only.''), db)"
    and "employees_PUT L env db request = (Response 403 (ErrorJson ''Access denied. Admin only.''), db)"
    and "employees_DELETE L env db request = (Response 403 (ErrorJson ''Access denied. Admin only.''), db)"
    by (simp_all add: employees_GET_def employees_POST_def employees_PUT_def employees_DELETE_def)
next
  fix u
  assume a: "AuthResult.user (authenticateRequest L env request) = Some u
          \<and> TokenPayload.role u = ''admin''"
  show "employees_GET L env db request = (Response 200 (EmployeesJson (getAllEmployees db)), db)"
    using a by (simp add: employees_GET_def)
  show "status (fst (employees_POST L env db request)) \<notin> {401, 403}"
    using a by (simp add: employees_POST_def Let_def split: option.splits sum.splits prod.splits)
  show "status (fst (employees_PUT L env db request)) \<notin> {401, 403}"
    using a by (simp add: employees_PUT_def Let_def split: option.splits sum.splits prod.splits)
  show "status (fst (employees_DELETE L env db request)) \<notin> {401, 403}"
    using a by (simp add: employees_DELETE_def Let_def split: option.splits prod.splits bool.splits)
qed


theorem staff_operations_admin_only_witness:
  "employees_DELETE demoLibs None demoDB
       \<lparr> header_cookie = None, json_body = Some [], search_id = Some ''1'' \<rparr>
     = (Response 401 (ErrorJson ''Unauthorized''), demoDB)
   \<and> employees_POST demoLibs None demoDB (demoRequest ''EMP002'' (demoEmployee ''a@cms.com'') ''1'')
     = (Response 403 (ErrorJson ''Access denied. Admin only.''), demoDB)
   \<and> employees_GET demoLibs None demoDB (demoRequest ''ADMIN001'' [] ''1'')
     = (Response 200 (EmployeesJson (getAllEmployees demoDB)), demoDB)"
proof -
  let ?anon = "\<lparr> header_cookie = None, json_body = Some [], search_id = Some ''1'' \<rparr>"
  let ?std = "\<lparr> TokenPayload.employeeCode = ''EMP002'', TokenPayload.email = ''a@cms.com'',
                 TokenPayload.id = 2, TokenPayload.role = ''user'' \<rparr>"
  let ?adm = "\<lparr> TokenPayload.employeeCode = ''ADMIN001'', TokenPayload.email = ''admin@cms.com'',
                 TokenPayload.id = 1, TokenPayload.role = ''admin'' \<rparr>"
  have h1: "AuthResult.user (authenticateRequest demoLibs None ?anon) = None"
    by code_simp
  have h2: "AuthResult.user (authenticateRequest demoLibs None
              (demoRequest ''EMP002'' (demoEmployee ''a@cms.com'') ''1'')) = Some ?std
            \<and> TokenPayload.role ?std \<noteq> ''admin''"
    by code_simp
  have h3: "AuthResult.user (authenticateRequest demoLibs None (demoRequest ''ADMIN001'' [] ''1''))
              = Some ?adm
            \<and> TokenPayload.role ?adm = ''admin''"
    by code_simp
  show ?thesis
    using staff_operations_admin_only [of demoLibs None ?anon demoDB] h1
      staff_operations_admin_only
        [of demoLibs None "demoRequest ''EMP002'' (demoEmployee ''a@cms.com'') ''1''" demoDB] h2
      staff_operations_admin_only [of demoLibs None "demoRequest ''ADMIN001'' [] ''1''" demoDB] h3
    by blast
qed

section \<open>Customer operations\<close>

lemma parseIntString_nonempty: "parseIntString s = Some n \<Longrightarrow> s \<noteq> []"
  by (auto simp: parseIntString_def)

lemma parseInt_truthy: "parseInt v = Some n \<Longrightarrow> n \<noteq> 0 \<Longrightarrow> truthy v"
proof (cases v)
  case (JNum m)
  assume a: "parseInt v = Some n" "n \<noteq> 0"
  have "parseInt (JNum 0) = Some 0"
    by (simp add: parseInt_def parseIntString_def toString_def isWhiteSpace_def
          isRadixDigit_def digitValue_def radixValue_def digits.simps)
  with a JNum show ?thesis by auto
next
  case (JStr s)
  assume "parseInt v = Some n"
  with JStr show ?thesis by (auto simp: parseInt_def toString_def dest: parseIntString_nonempty)
next
  case (JBool b)
  assume "parseInt v = Some n"
  with JBool show ?thesis
    by (cases b) (simp_all add: parseInt_def parseIntString_def toString_def isWhiteSpace_def
          isRadixDigit_def digitValue_def Let_def)
qed (simp_all add: parseInt_def parseIntString_def toString_def isWhiteSpace_def
          isRadixDigit_def digitValue_def Let_def)

lemma find_by_id:
  "distinct (map f xs) \<Longrightarrow> x \<in> set xs \<Longrightarrow> find (\<lambda>r. f r = f x) xs = Some x"
  by (induction xs) (auto simp: image_iff)

lemma getCustomerById_member:
  "wf_db db \<Longrightarrow> c \<in> set (customers db) \<Longrightarrow> getCustomerById db (Some (Customer.id c)) = Some c"
  by (simp add: getCustomerById_def wf_db_def find_by_id)

lemma getEmployeeById_member:
  "wf_db db \<Longrightarrow> r \<in> set (employees db) \<Longrightarrow> getEmployeeById db (Some (Employee.id r)) = Some r"
  by (simp add: getEmployeeById_def wf_db_def find_by_id)

lemma customer_id_nonzero: "wf_db db \<Longrightarrow> c \<in> set (customers db) \<Longrightarrow> Customer.id c \<noteq> 0"
  by (auto simp: wf_db_def list_all_iff)

lemma deleteCustomer_member:
  "c \<in> set (customers db) \<Longrightarrow>
   deleteCustomer db (Some (Customer.id c)) =
     (True, db\<lparr> customers := filter (\<lambda>r. Customer.id r \<noteq> Customer.id c) (customers db) \<rparr>)"
  by (auto simp: deleteCustomer_def Let_def filter_empty_conv)

lemma getAllCustomers_all:
  "set (getAllCustomers db None) = set (customers db)
   \<and> length (getAllCustomers db None) = length (customers db)"
  by (simp add: getAllCustomers_def or_null_def)

lemma getAllCustomers_owned:
  "k \<noteq> 0 \<Longrightarrow>
   set (getAllCustomers db (Some k)) = {c \<in> set (customers db). Customer.createdBy c = Some k}
   \<and> length (getAllCustomers db (Some k))
       = length (filter (\<lambda>c. Customer.createdBy c = Some k) (customers db))"
  by (auto simp: getAllCustomers_def or_null_def)

text \<open>
  Claim C6. The customer listing of a caller with the role 'admin' holds every customer
  row, and the listing of a caller with another role holds exactly the rows whose
  \<open>createdBy\<close> is the caller's id, each once. The caller's id is not 0: ids are
  assigned from 1 upwards (\<open>authenticateUser_id_positive\<close>).
\<close>

theorem customers_GET_scope:
  assumes "AuthResult.user (authenticateRequest L env request) = Some u"
  shows "(TokenPayload.role u = ''admin'' \<longrightarrow>
            customers_GET L env db request
              = (Response 200 (CustomersJson (getAllCustomers db None)), db)
            \<and> set (getAllCustomers db None) = set (customers db)
            \<and> length (getAllCustomers db None) = length (customers db))
       \<and> (TokenPayload.role u \<noteq> ''admin'' \<and> TokenPayload.id u \<noteq> 0 \<longrightarrow>
            customers_GET L env db request
              = (Response 200 (CustomersJson (getAllCustomers db (Some (TokenPayload.id u)))), db)
            \<and> set (getAllCustomers db (Some (TokenPayload.id u)))
                = {c \<in> set (customers db). Customer.createdBy c = Some (TokenPayload.id u)}
            \<and> length (getAllCustomers db (Some (TokenPayload.id u)))
                = length (filter (\<lambda>c. Customer.createdBy c = Some (TokenPayload.id u))
                            (customers db)))"
  using assms getAllCustomers_all [of db] getAllCustomers_owned [of "TokenPayload.id u" db]
  by (simp add: customers_GET_def)

theorem customers_GET_scope_witness:
  "customers_GET demoLibs None demoStore (demoRequest ''ADMIN001'' [] ''1'')
     = (Response 200 (CustomersJson
          [demoCustomer 3 ''CUST003'' ''walkin@shop.com'' None,
           demoCustomer 2 ''CUST002'' ''meena@shop.com'' (Some 3),
           demoCustomer 1 ''CUST001'' ''ravi@shop.com'' (Some 2)]), demoStore)
   \<and> customers_GET demoLibs None demoStore (demoRequest ''EMP003'' [] ''1'')
     = (Response 200 (CustomersJson [demoCustomer 2 ''CUST002'' ''meena@shop.com'' (Some 3)]), demoStore)
   \<and> set (getAllCustomers demoStore (Some 3))
     = {c \<in> set (customers demoStore). Customer.createdBy c = Some 3}"
proof -
  have h1: "AuthResult.user (authenticateRequest demoLibs None (demoRequest ''ADMIN001'' [] ''1''))
              = Some (demoUser 1)"
    by code_simp
  have h2: "AuthResult.user (authenticateRequest demoLibs None (demoRequest ''EMP003'' [] ''1''))
              = Some (demoUser 3)"
    by code_simp
  have r1: "TokenPayload.role (demoUser 1) = ''admin''" by code_simp
  have r2: "TokenPayload.role (demoUser 3) \<noteq> ''admin'' \<and> TokenPayload.id (demoUser 3) \<noteq> 0"
    by code_simp
  have i3: "TokenPayload.id (demoUser 3) = 3" by code_simp
  have e1: "getAllCustomers demoStore None =
          [demoCustomer 3 ''CUST003'' ''walkin@shop.com'' None,
           demoCustomer 2 ''CUST002'' ''meena@shop.com'' (Some 3),
           demoCustomer 1 ''CUST001'' ''ravi@shop.com'' (Some 2)]"
    by code_simp
  have e2: "getAllCustomers demoStore (Some 3) = [demoCustomer 2 ''CUST002'' ''meena@shop.com'' (Some 3)]"
    by code_simp
  show ?thesis
    using customers_GET_scope [OF h1, of demoStore] customers_GET_scope [OF h2, of demoStore]
      r1 r2 i3 e1 e2
    by simp
qed

text \<open>
  Claim C3. For a caller whose role is not 'admin' and a customer row that exists, with
  a request that names the row's id: when the row's \<open>createdBy\<close> is not the caller's
  id, update and delete answer 403 and change nothing; when it is the caller's id, the
  update is not refused by the authentication or authorization checks and the delete
  removes the row.
\<close>

theorem customers_owner_gate:
  assumes "AuthResult.user (authenticateRequest L env request) = Some u"
    and "TokenPayload.role u \<noteq> ''admin''"
    and "wf_db db" and "c \<in> set (customers db)"
    and "json_body request = Some body" and "parseInt (get body ''id'') = Some (Customer.id c)"
    and "search_id request = Some i" and "parseIntString i = Some (Customer.id c)"
  shows "(Customer.createdBy c \<noteq> Some (TokenPayload.id u) \<longrightarrow>
            customers_PUT L env db request = (Response 403 (ErrorJson ''Access denied''), db)
          \<and> customers_DELETE L env db request = (Response 403 (ErrorJson ''Access denied''), db))
       \<and> (Customer.createdBy c = Some (TokenPayload.id u) \<longrightarrow>
            status (fst (customers_PUT L env db request)) \<notin> {401, 403}
          \<and> customers_DELETE L env db request
              = (Response 200 (MessageJson ''Customer deleted successfully''),
                 db\<lparr> customers := filter (\<lambda>r. Customer.id r \<noteq> Customer.id c) (customers db) \<rparr>))"
proof -
  have t: "truthy (get body ''id'')"
    using parseInt_truthy [OF assms(6)] customer_id_nonzero [OF assms(3,4)] by simp
  have ne: "i \<noteq> []"
    using parseIntString_nonempty [OF assms(8)] .
  have g: "getCustomerById db (Some (Customer.id c)) = Some c"
    using getCustomerById_member [OF assms(3,4)] .
  have d: "deleteCustomer db (Some (Customer.id c)) =
     (True, db\<lparr> customers := filter (\<lambda>r. Customer.id r \<noteq> Customer.id c) (customers db) \<rparr>)"
    using deleteCustomer_member [OF assms(4)] .
  show ?thesis
  proof (intro conjI impI)
    assume n: "Customer.createdBy c \<noteq> Some (TokenPayload.id u)"
    show "customers_PUT L env db request = (Response 403 (ErrorJson ''Access denied''), db)"
      using assms(1,2,5,6) t g n by (simp add: customers_PUT_def)
    show "customers_DELETE L env db request = (Response 403 (ErrorJson ''Access denied''), db)"
      using assms(1,2,7,8) ne g n by (simp add: customers_DELETE_def)
  next
    assume e: "Customer.createdBy c = Some (TokenPayload.id u)"
    show "status (fst (customers_PUT L env db request)) \<notin> {401, 403}"
      using assms(1,2,5,6) t g e
      by (simp add: customers_PUT_def Let_def split: option.splits sum.splits prod.splits)
    show "customers_DELETE L env db request
              = (Response 200 (MessageJson ''Customer deleted successfully''),
                 db\<lparr> customers := filter (\<lambda>r. Customer.id r \<noteq> Customer.id c) (customers db) \<rparr>)"
      using assms(1,2,7,8) ne g e d by (simp add: customers_DELETE_def)
  qed
qed


theorem customers_owner_gate_witness:
  "customers_PUT demoLibs None demoStore
       (demoRequest ''EMP003'' [(''id'', JNum 1), (''mobile'', JStr ''5550199'')] ''1'')
     = (Response 403 (ErrorJson ''Access denied''), demoStore)
   \<and> customers_DELETE demoLibs None demoStore
       (demoRequest ''EMP003'' [(''id'', JNum 1), (''mobile'', JStr ''5550199'')] ''1'')
     = (Response 403 (ErrorJson ''Access denied''), demoStore)
   \<and> status (fst (customers_PUT demoLibs None demoStore
       (demoRequest ''EMP003'' [(''id'', JStr ''2''), (''mobile'', JStr ''5550199'')] ''2''))) = 200
   \<and> customers_DELETE demoLibs None demoStore
       (demoRequest ''EMP003'' [(''id'', JStr ''2''), (''mobile'', JStr ''5550199'')] ''2'')
     = (Response 200 (MessageJson ''Customer deleted successfully''),
        demoStore\<lparr> customers :=
          [demoCustomer 1 ''CUST001'' ''ravi@shop.com'' (Some 2),
           demoCustomer 3 ''CUST003'' ''walkin@shop.com'' None] \<rparr>)"
proof -
  let ?b1 = "[(''id'', JNum 1), (''mobile'', JStr ''5550199'')]"
  let ?b2 = "[(''id'', JStr ''2''), (''mobile'', JStr ''5550199'')]"
  let ?c1 = "demoCustomer 1 ''CUST001'' ''ravi@shop.com'' (Some 2)"
  let ?c2 = "demoCustomer 2 ''CUST002'' ''meena@shop.com'' (Some 3)"
  have u1: "AuthResult.user (authenticateRequest demoLibs None (demoRequest ''EMP003'' ?b1 ''1''))
              = Some (demoUser 3)" by code_simp
  have u2: "AuthResult.user (authenticateRequest demoLibs None (demoRequest ''EMP003'' ?b2 ''2''))
              = Some (demoUser 3)" by code_simp
  have r: "TokenPayload.role (demoUser 3) \<noteq> ''admin''" by code_simp
  have wf: "wf_db demoStore" by code_simp
  have m1: "?c1 \<in> set (customers demoStore)" by code_simp
  have m2: "?c2 \<in> set (customers demoStore)" by code_simp
  have b1: "json_body (demoRequest ''EMP003'' ?b1 ''1'') = Some ?b1" by code_simp
  have b2: "json_body (demoRequest ''EMP003'' ?b2 ''2'') = Some ?b2" by code_simp
  have p1: "parseInt (get ?b1 ''id'') = Some (Customer.id ?c1)" by code_simp
  have p2: "parseInt (get ?b2 ''id'') = Some (Customer.id ?c2)" by code_simp
  have s1: "search_id (demoRequest ''EMP003'' ?b1 ''1'') = Some ''1''" by code_simp
  have s2: "search_id (demoRequest ''EMP003'' ?b2 ''2'') = Some ''2''" by code_simp
  have q1: "parseIntString ''1'' = Some (Customer.id ?c1)" by code_simp
  have q2: "parseIntString ''2'' = Some (Customer.id ?c2)" by code_simp
  have o1: "Customer.createdBy ?c1 \<noteq> Some (TokenPayload.id (demoUser 3))" by code_simp
  have o2: "Customer.createdBy ?c2 = Some (TokenPayload.id (demoUser 3))" by code_simp
  have f: "filter (\<lambda>r. Customer.id r \<noteq> Customer.id ?c2) (customers demoStore)
             = [?c1, demoCustomer 3 ''CUST003'' ''walkin@shop.com'' None]" by code_simp
  have st: "status (fst (customers_PUT demoLibs None demoStore (demoRequest ''EMP003'' ?b2 ''2''))) = 200"
    by code_simp
  show ?thesis
    using customers_owner_gate [OF u1 r wf m1 b1 p1 s1 q1] o1
      customers_owner_gate [OF u2 r wf m2 b2 p2 s2 q2] o2 f st
    by simp
qed

text \<open>
  Claim C9. For a customer row whose \<open>createdBy\<close> is NULL and a request that names
  its id: a caller whose role is not 'admin' gets 403 from update and from delete, with
  nothing changed, and does not find the row in the customer listing; a caller with the
  role 'admin' finds it in the listing, is not refused the update, and deletes it.
\<close>

theorem ownerless_customer_admin_only:
  assumes "AuthResult.user (authenticateRequest L env request) = Some u"
    and "wf_db db" and "c \<in> set (customers db)" and "Customer.createdBy c = None"
    and "json_body request = Some body" and "parseInt (get body ''id'') = Some (Customer.id c)"
    and "search_id request = Some i" and "parseIntString i = Some (Customer.id c)"
  shows "(TokenPayload.role u \<noteq> ''admin'' \<longrightarrow>
            customers_PUT L env db request = (Response 403 (ErrorJson ''Access denied''), db)
          \<and> customers_DELETE L env db request = (Response 403 (ErrorJson ''Access denied''), db)
          \<and> (TokenPayload.id u \<noteq> 0 \<longrightarrow>
               (\<exists>rows. customers_GET L env db request = (Response 200 (CustomersJson rows), db)
                       \<and> c \<notin> set rows)))
       \<and> (TokenPayload.role u = ''admin'' \<longrightarrow>
            status (fst (customers_PUT L env db request)) \<notin> {401, 403}
          \<and> customers_DELETE L env db request
              = (Response 200 (MessageJson ''Customer deleted successfully''),
                 db\<lparr> customers := filter (\<lambda>r. Customer.id r \<noteq> Customer.id c) (customers db) \<rparr>)
          \<and> (\<exists>rows. customers_GET L env db request = (Response 200 (CustomersJson rows), db)
                     \<and> c \<in> set rows))"
proof -
  have t: "truthy (get body ''id'')"
    using parseInt_truthy [OF assms(6)] customer_id_nonzero [OF assms(2,3)] by simp
  have ne: "i \<noteq> []"
    using parseIntString_nonempty [OF assms(8)] .
  have g: "getCustomerById db (Some (Customer.id c)) = Some c"
    using getCustomerById_member [OF assms(2,3)] .
  have d: "deleteCustomer db (Some (Customer.id c)) =
     (True, db\<lparr> customers := filter (\<lambda>r. Customer.id r \<noteq> Customer.id c) (customers db) \<rparr>)"
    using deleteCustomer_member [OF assms(3)] .
  show ?thesis
  proof (intro conjI impI)
    assume n: "TokenPayload.role u \<noteq> ''admin''"
    show "customers_PUT L env db request = (Response 403 (ErrorJson ''Access denied''), db)"
      using assms(1,4,5,6) t g n by (simp add: customers_PUT_def)
    show "customers_DELETE L env db request = (Response 403 (ErrorJson ''Access denied''), db)"
      using assms(1,4,7,8) ne g n by (simp add: customers_DELETE_def)
    assume z: "TokenPayload.id u \<noteq> 0"
    show "\<exists>rows. customers_GET L env db request = (Response 200 (CustomersJson rows), db)
                       \<and> c \<notin> set rows"
      using assms(1,4) n z getAllCustomers_owned [OF z, of db]
      by (simp add: customers_GET_def)
  next
    assume a: "TokenPayload.role u = ''admin''"
    show "status (fst (customers_PUT L env db request)) \<notin> {401, 403}"
      using assms(1,5,6) t g a
      by (simp add: customers_PUT_def Let_def split: option.splits sum.splits prod.splits)
    show "customers_DELETE L env db request
              = (Response 200 (MessageJson ''Customer deleted successfully''),
                 db\<lparr> customers := filter (\<lambda>r. Customer.id r \<noteq> Customer.id c) (customers db) \<rparr>)"
      using assms(1,7,8) ne d a by (simp add: customers_DELETE_def)
    show "\<exists>rows. customers_GET L env db request = (Response 200 (CustomersJson rows), db)
                     \<and> c \<in> set rows"
      using assms(1,3) a getAllCustomers_all [of db] by (simp add: customers_GET_def)
  qed
qed

theorem ownerless_customer_admin_only_witness:
  "customers_PUT demoLibs None demoStore
       (demoRequest ''EMP003'' [(''id'', JNum 3), (''mobile'', JStr ''5550199'')] ''3'')
     = (Response 403 (ErrorJson ''Access denied''), demoStore)
   \<and> customers_DELETE demoLibs None demoStore
       (demoRequest ''EMP003'' [(''id'', JNum 3), (''mobile'', JStr ''5550199'')] ''3'')
     = (Response 403 (ErrorJson ''Access denied''), demoStore)
   \<and> customers_GET demoLibs None demoStore
       (demoRequest ''EMP003'' [(''id'', JNum 3), (''mobile'', JStr ''5550199'')] ''3'')
     = (Response 200 (CustomersJson [demoCustomer 2 ''CUST002'' ''meena@shop.com'' (Some 3)]), demoStore)
   \<and> customers_DELETE demoLibs None demoStore
       (demoRequest ''ADMIN001'' [(''id'', JNum 3), (''mobile'', JStr ''5550199'')] ''3'')
     = (Response 200 (MessageJson ''Customer deleted successfully''),
        demoStore\<lparr> customers :=
          [demoCustomer 1 ''CUST001'' ''ravi@shop.com'' (Some 2),
           demoCustomer 2 ''CUST002'' ''meena@shop.com'' (Some 3)] \<rparr>)"
proof -
  let ?b = "[(''id'', JNum 3), (''mobile'', JStr ''5550199'')]"
  let ?c = "demoCustomer 3 ''CUST003'' ''walkin@shop.com'' None"
  have u1: "AuthResult.user (authenticateRequest demoLibs None (demoRequest ''EMP003'' ?b ''3''))
              = Some (demoUser 3)" by code_simp
  have u2: "AuthResult.user (authenticateRequest demoLibs None (demoRequest ''ADMIN001'' ?b ''3''))
              = Some (demoUser 1)" by code_simp
  have r1: "TokenPayload.role (demoUser 3) \<noteq> ''admin'' \<and> TokenPayload.id (demoUser 3) \<noteq> 0"
    by code_simp
  have r2: "TokenPayload.role (demoUser 1) = ''admin''" by code_simp
  have wf: "wf_db demoStore" by code_simp
  have m: "?c \<in> set (customers demoStore)" by code_simp
  have o: "Customer.createdBy ?c = None" by code_simp
  have b1: "json_body (demoRequest ''EMP003'' ?b ''3'') = Some ?b" by code_simp
  have b2: "json_body (demoRequest ''ADMIN001'' ?b ''3'') = Some ?b" by code_simp
  have p: "parseInt (get ?b ''id'') = Some (Customer.id ?c)" by code_simp
  have s1: "search_id (demoRequest ''EMP003'' ?b ''3'') = Some ''3''" by code_simp
  have s2: "search_id (demoRequest ''ADMIN001'' ?b ''3'') = Some ''3''" by code_simp
  have q: "parseIntString ''3'' = Some (Customer.id ?c)" by code_simp
  have f: "filter (\<lambda>r. Customer.id r \<noteq> Customer.id ?c) (customers demoStore)
             = [demoCustomer 1 ''CUST001'' ''ravi@shop.com'' (Some 2),
                demoCustomer 2 ''CUST002'' ''meena@shop.com'' (Some 3)]" by code_simp
  have l: "customers_GET demoLibs None demoStore (demoRequest ''EMP003'' ?b ''3'')
     = (Response 200 (CustomersJson [demoCustomer 2 ''CUST002'' ''meena@shop.com'' (Some 3)]), demoStore)"
    by code_simp
  show ?thesis
    using ownerless_customer_admin_only [OF u1 wf m o b1 p s1 q] r1
      ownerless_customer_admin_only [OF u2 wf m o b2 p s2 q] r2 f l
    by simp
qed

lemma distinct_key_unique:
  "distinct (map f xs) \<Longrightarrow> x \<in> set xs \<Longrightarrow> r \<in> set xs \<Longrightarrow> f x = f r \<Longrightarrow> x = r"
  by (auto simp: distinct_map dest: inj_onD)

lemma map_replace_by_key:
  assumes "distinct (map f xs)" and "r \<in> set xs" and "g r' = g r"
  shows "map g (map (\<lambda>x. if f x = f r then r' else x) xs) = map g xs"
proof -
  have "\<And>x. x \<in> set xs \<Longrightarrow> g (if f x = f r then r' else x) = g x"
    using distinct_key_unique [OF assms(1) _ assms(2)] assms(3) by auto
  then show ?thesis by (simp add: o_def)
qed

lemma setCustomer_createdBy:
  "CustomerUpdates.createdBy updates = JUndefined \<Longrightarrow> setCustomer L updates r = Some r' \<Longrightarrow>
   Customer.createdBy r' = Customer.createdBy r"
  by (auto simp: setCustomer_def split: option.splits list.splits)

lemma updateCustomerRow_createdBy:
  assumes "wf_db db" and "CustomerUpdates.createdBy updates = JUndefined"
    and "updateCustomerRow L db updates i = Inr (n, db')"
  shows "map Customer.createdBy (customers db') = map Customer.createdBy (customers db)"
proof (cases "getCustomerById db i")
  case None
  with assms(3) show ?thesis by (simp add: updateCustomerRow_def)
next
  case (Some r)
  then have m: "r \<in> set (customers db)"
    by (auto simp: getCustomerById_def dest: find_Some_set)
  have d: "distinct (map Customer.id (customers db))"
    using assms(1) by (simp add: wf_db_def)
  obtain r' where s: "setCustomer L updates r = Some r'"
    and e: "db' = db\<lparr> customers :=
              map (\<lambda>x. if Customer.id x = Customer.id r then r' else x) (customers db) \<rparr>"
    using assms(3) Some by (auto simp: updateCustomerRow_def split: option.splits if_splits)
  have "Customer.createdBy r' = Customer.createdBy r"
    using setCustomer_createdBy [OF assms(2) s] .
  then show ?thesis
    using map_replace_by_key [OF d m, of Customer.createdBy r'] e by simp
qed

lemma updateCustomer_createdBy:
  assumes "wf_db db" and "CustomerUpdates.createdBy updates = JUndefined"
    and "updateCustomer L db i updates = Inr (res, db')"
  shows "map Customer.createdBy (customers db') = map Customer.createdBy (customers db)"
  using assms(3) updateCustomerRow_createdBy [OF assms(1,2)]
  by (auto simp: updateCustomer_def Let_def split: if_splits sum.splits)

text \<open>
  Claim C7. A customer that a caller creates is stored with \<open>createdBy\<close> equal to the
  caller's id (the caller's id is not 0, see \<open>authenticateUser_id_positive\<close>), and the
  update handler changes no row's \<open>createdBy\<close> and no row's id, whatever the request.
\<close>

theorem customer_owner_fixed:
  assumes "wf_db db"
  shows "(\<forall>u j db'. AuthResult.user (authenticateRequest L env request) = Some u
            \<and> TokenPayload.id u \<noteq> 0
            \<and> customers_POST L env db request = (Response 201 j, db') \<longrightarrow>
            (\<exists>c. customers db' = customers db @ [c]
                 \<and> Customer.createdBy c = Some (TokenPayload.id u)
                 \<and> j = CustomerJson ''Customer created successfully'' (customerInfo c)))
       \<and> map Customer.createdBy (customers (snd (customers_PUT L env db request)))
           = map Customer.createdBy (customers db)
       \<and> map Customer.id (customers (snd (customers_PUT L env db request)))
           = map Customer.id (customers db)"
proof (intro conjI allI impI)
  fix u j db'
  assume a: "AuthResult.user (authenticateRequest L env request) = Some u
            \<and> TokenPayload.id u \<noteq> 0
            \<and> customers_POST L env db request = (Response 201 j, db')"
  then show "\<exists>c. customers db' = customers db @ [c]
                 \<and> Customer.createdBy c = Some (TokenPayload.id u)
                 \<and> j = CustomerJson ''Customer created successfully'' (customerInfo c)"
    by (auto simp: customers_POST_def createCustomer_def or_null_def Let_def
             split: option.splits sum.splits if_splits dest!: insertCustomer_Inr)
next
  show "map Customer.createdBy (customers (snd (customers_PUT L env db request)))
           = map Customer.createdBy (customers db)"
    using assms
    by (auto simp: customers_PUT_def Let_def customerUpdatesOf_def
             split: option.splits sum.splits
             dest: updateCustomer_createdBy [rotated 2])
next
  show "map Customer.id (customers (snd (customers_PUT L env db request)))
           = map Customer.id (customers db)"
    by (auto simp: customers_PUT_def Let_def updateCustomer_def
             split: option.splits sum.splits if_splits
             dest: updateCustomerRow_ids)
qed

theorem customer_owner_fixed_witness:
  "(\<exists>c. customers (snd (customers_POST demoLibs None demoStore
            (demoRequest ''EMP003'' (demoEmployee ''new@shop.com'') ''1'')))
          = customers demoStore @ [c]
        \<and> Customer.createdBy c = Some 3)
   \<and> map Customer.createdBy (customers (snd (customers_PUT demoLibs None demoStore
         (demoRequest ''EMP003'' [(''id'', JNum 2), (''mobile'', JStr ''5550199'')] ''2''))))
       = [Some 2, Some 3, None]"
proof -
  let ?req = "demoRequest ''EMP003'' (demoEmployee ''new@shop.com'') ''1''"
  let ?c = "\<lparr> Customer.id = 4, Customer.customerCode = ''CUST004'', Customer.firstname = ''Asha'',
       Customer.lastname = ''Rao'', Customer.mobile = ''5550100'',
       Customer.dateOfBirth = ''1995-05-05'', Customer.email = ''new@shop.com'',
       Customer.createdBy = Some 3 \<rparr>"
  let ?db' = "demoStore\<lparr> customers := customers demoStore @ [?c], customers_seq := 4 \<rparr>"
  have wf: "wf_db demoStore" by code_simp
  have u: "AuthResult.user (authenticateRequest demoLibs None ?req) = Some (demoUser 3)"
    by code_simp
  have z: "TokenPayload.id (demoUser 3) \<noteq> 0" by code_simp
  have i: "TokenPayload.id (demoUser 3) = 3" by code_simp
  have p: "customers_POST demoLibs None demoStore ?req
            = (Response 201 (CustomerJson ''Customer created successfully'' (customerInfo ?c)), ?db')"
    by code_simp
  have m: "map Customer.createdBy (customers demoStore) = [Some 2, Some 3, None]"
    by code_simp
  have "\<exists>c. customers ?db' = customers demoStore @ [c]
             \<and> Customer.createdBy c = Some (TokenPayload.id (demoUser 3))
             \<and> CustomerJson ''Customer created successfully'' (customerInfo ?c)
                 = CustomerJson ''Customer created successfully'' (customerInfo c)"
    using customer_owner_fixed [OF wf, of demoLibs None ?req] u z p by blast
  then show ?thesis
    using customer_owner_fixed [OF wf, of demoLibs None
        "demoRequest ''EMP003'' [(''id'', JNum 2), (''mobile'', JStr ''5550199'')] ''2''"] p i m
    by auto
qed

section \<open>Validation of creation requests\<close>

text \<open>
  Claim C10. A creation request in which a required field is absent or is the empty
  string creates no record and is refused: the employee handler answers 400 'All fields
  are required' to a caller with the role 'admin' (and 401 or 403 to the callers it
  refuses before it reads the body), the customer handler answers 400 'All fields are
  required' to every authenticated caller (and 401 otherwise). An absent field and an
  empty string take the same branch.
\<close>

theorem creation_requires_fields:
  assumes "json_body request = Some body"
  shows "((\<exists>f \<in> set [''firstname'', ''lastname'', ''mobile'', ''dateOfBirth'', ''email'', ''password''].
             get body f = JUndefined \<or> get body f = JStr []) \<longrightarrow>
            snd (employees_POST L env db request) = db
          \<and> status (fst (employees_POST L env db request)) \<in> {400, 401, 403}
          \<and> (\<forall>u. AuthResult.user (authenticateRequest L env request) = Some u
                  \<and> TokenPayload.role u = ''admin'' \<longrightarrow>
                employees_POST L env db request
                  = (Response 400 (ErrorJson ''All fields are required''), db)))
       \<and> ((\<exists>f \<in> set [''firstname'', ''lastname'', ''mobile'', ''dateOfBirth'', ''email''].
             get body f = JUndefined \<or> get body f = JStr []) \<longrightarrow>
            snd (customers_POST L env db request) = db
          \<and> status (fst (customers_POST L env db request)) \<in> {400, 401}
          \<and> (\<forall>u. AuthResult.user (authenticateRequest L env request) = Some u \<longrightarrow>
                customers_POST L env db request
                  = (Response 400 (ErrorJson ''All fields are required''), db)))"
proof (intro conjI impI)
  assume "\<exists>f \<in> set [''firstname'', ''lastname'', ''mobile'', ''dateOfBirth'', ''email'', ''password''].
             get body f = JUndefined \<or> get body f = JStr []"
  then have v: "\<not> truthy (get body ''firstname'') \<or> \<not> truthy (get body ''lastname'')
                \<or> \<not> truthy (get body ''mobile'') \<or> \<not> truthy (get body ''dateOfBirth'')
                \<or> \<not> truthy (get body ''email'') \<or> \<not> truthy (get body ''password'')"
    by auto
  show "snd (employees_POST L env db request) = db"
    using assms v by (auto simp: employees_POST_def split: option.splits)
  show "status (fst (employees_POST L env db request)) \<in> {400, 401, 403}"
    using assms v by (auto simp: employees_POST_def split: option.splits)
  show "\<forall>u. AuthResult.user (authenticateRequest L env request) = Some u
                  \<and> TokenPayload.role u = ''admin'' \<longrightarrow>
                employees_POST L env db request
                  = (Response 400 (ErrorJson ''All fields are required''), db)"
    using assms v by (auto simp: employees_POST_def)
next
  assume "\<exists>f \<in> set [''firstname'', ''lastname'', ''mobile'', ''dateOfBirth'', ''email''].
             get body f = JUndefined \<or> get body f = JStr []"
  then have v: "\<not> truthy (get body ''firstname'') \<or> \<not> truthy (get body ''lastname'')
                \<or> \<not> truthy (get body ''mobile'') \<or> \<not> truthy (get body ''dateOfBirth'')
                \<or> \<not> truthy (get body ''email'')"
    by auto
  show "snd (customers_POST L env db request) = db"
    using assms v by (auto simp: customers_POST_def split: option.splits)
  show "status (fst (customers_POST L env db request)) \<in> {400, 401}"
    using assms v by (auto simp: customers_POST_def split: option.splits)
  show "\<forall>u. AuthResult.user (authenticateRequest L env request) = Some u \<longrightarrow>
                customers_POST L env db request
                  = (Response 400 (ErrorJson ''All fields are required''), db)"
    using assms v by (auto simp: customers_POST_def)
qed

theorem creation_requires_fields_witness:
  "employees_POST demoLibs None demoStore
       (demoRequest ''ADMIN001'' (put (demoEmployee ''new@cms.com'') ''email'' (JStr [])) ''1'')
     = (Response 400 (ErrorJson ''All fields are required''), demoStore)
   \<and> customers_POST demoLibs None demoStore
       (demoRequest ''EMP003'' [(''firstname'', JStr ''Ravi''), (''email'', JStr ''r@shop.com'')] ''1'')
     = (Response 400 (ErrorJson ''All fields are required''), demoStore)"
proof -
  let ?b1 = "put (demoEmployee ''new@cms.com'') ''email'' (JStr [])"
  let ?b2 = "[(''firstname'', JStr ''Ravi''), (''email'', JStr ''r@shop.com'')]"
  have j1: "json_body (demoRequest ''ADMIN001'' ?b1 ''1'') = Some ?b1" by code_simp
  have j2: "json_body (demoRequest ''EMP003'' ?b2 ''1'') = Some ?b2" by code_simp
  have m1: "\<exists>f \<in> set [''firstname'', ''lastname'', ''mobile'', ''dateOfBirth'', ''email'', ''password''].
             get ?b1 f = JUndefined \<or> get ?b1 f = JStr []"
    by code_simp
  have m2: "\<exists>f \<in> set [''firstname'', ''lastname'', ''mobile'', ''dateOfBirth'', ''email''].
             get ?b2 f = JUndefined \<or> get ?b2 f = JStr []"
    by code_simp
  have u1: "AuthResult.user (authenticateRequest demoLibs None (demoRequest ''ADMIN001'' ?b1 ''1''))
              = Some (demoUser 1) \<and> TokenPayload.role (demoUser 1) = ''admin''"
    by code_simp
  have u2: "AuthResult.user (authenticateRequest demoLibs None (demoRequest ''EMP003'' ?b2 ''1''))
              = Some (demoUser 3)"
    by code_simp
  show ?thesis
    using creation_requires_fields [OF j1, of demoLibs None demoStore] m1 u1
      creation_requires_fields [OF j2, of demoLibs None demoStore] m2 u2
    by blast
qed

section \<open>Partial updates\<close>

lemma setEmployee_emailOnly:
  "setEmployee L \<lparr> EmployeeUpdates.firstname = JUndefined, EmployeeUpdates.lastname = JUndefined,
       EmployeeUpdates.mobile = JUndefined, EmployeeUpdates.dateOfBirth = JUndefined,
       EmployeeUpdates.email = JStr x, EmployeeUpdates.role = JUndefined \<rparr> r
   = Some (r\<lparr> Employee.email := x \<rparr>)"
  by (simp add: setEmployee_def setText_def sqlText_def)

lemma setCustomer_emailOnly:
  "setCustomer L \<lparr> CustomerUpdates.firstname = JUndefined, CustomerUpdates.lastname = JUndefined,
       CustomerUpdates.mobile = JUndefined, CustomerUpdates.dateOfBirth = JUndefined,
       CustomerUpdates.email = JStr x, CustomerUpdates.createdBy = JUndefined \<rparr> r
   = Some (r\<lparr> Customer.email := x \<rparr>)"
  by (simp add: setCustomer_def setText_def sqlText_def)

lemma map_replace_one:
  assumes "distinct (map f xs)" and "r \<in> set xs"
  shows "map (\<lambda>x. if f x = f r then h r else x) xs = map (\<lambda>x. if f x = f r then h x else x) xs"
  using distinct_key_unique [OF assms(1) _ assms(2)] by (auto intro!: map_cong)

lemma find_replaced:
  "r \<in> set xs \<Longrightarrow> f r' = f r \<Longrightarrow>
   find (\<lambda>y. f y = f r) (map (\<lambda>x. if f x = f r then r' else x) xs) = Some r'"
  by (induction xs) auto


lemma updateEmployee_emailOnly:
  assumes "wf_db db" and "r \<in> set (employees db)"
  shows "updateEmployee L db (Some (Employee.id r))
           \<lparr> EmployeeUpdates.firstname = JUndefined, EmployeeUpdates.lastname = JUndefined,
             EmployeeUpdates.mobile = JUndefined, EmployeeUpdates.dateOfBirth = JUndefined,
             EmployeeUpdates.email = JStr x, EmployeeUpdates.role = JUndefined \<rparr>
         = (if x \<in> set (map Employee.email
                      (filter (\<lambda>y. Employee.id y \<noteq> Employee.id r) (employees db)))
            then Inl SQLITE_CONSTRAINT
            else Inr (Some (r\<lparr> Employee.email := x \<rparr>),
                      db\<lparr> employees :=
                        map (\<lambda>y. if Employee.id y = Employee.id r then y\<lparr> Employee.email := x \<rparr> else y)
                          (employees db) \<rparr>))"
proof -
  have d: "distinct (map Employee.id (employees db))"
    using assms(1) by (simp add: wf_db_def)
  have g: "getEmployeeById db (Some (Employee.id r)) = Some r"
    using getEmployeeById_member [OF assms] .
  have f: "find (\<lambda>y. Employee.id y = Employee.id r)
             (map (\<lambda>x'. if Employee.id x' = Employee.id r then r\<lparr> Employee.email := x \<rparr> else x')
                (employees db)) = Some (r\<lparr> Employee.email := x \<rparr>)"
    using find_replaced [OF assms(2), of Employee.id "r\<lparr> Employee.email := x \<rparr>"] by simp
  have m: "map (\<lambda>x'. if Employee.id x' = Employee.id r then r\<lparr> Employee.email := x \<rparr> else x')
             (employees db)
           = map (\<lambda>y. if Employee.id y = Employee.id r then y\<lparr> Employee.email := x \<rparr> else y)
               (employees db)"
    using map_replace_one [OF d assms(2), of "\<lambda>y. y\<lparr> Employee.email := x \<rparr>"] .
  have "updateEmployee L db (Some (Employee.id r))
           \<lparr> EmployeeUpdates.firstname = JUndefined, EmployeeUpdates.lastname = JUndefined,
             EmployeeUpdates.mobile = JUndefined, EmployeeUpdates.dateOfBirth = JUndefined,
             EmployeeUpdates.email = JStr x, EmployeeUpdates.role = JUndefined \<rparr>
         = (if x \<in> set (map Employee.email
                      (filter (\<lambda>y. Employee.id y \<noteq> Employee.id r) (employees db)))
            then Inl SQLITE_CONSTRAINT
            else Inr (Some (r\<lparr> Employee.email := x \<rparr>),
                      db\<lparr> employees :=
                        map (\<lambda>x'. if Employee.id x' = Employee.id r
                                   then r\<lparr> Employee.email := x \<rparr> else x')
                          (employees db) \<rparr>))"
    using g f
    by (simp add: updateEmployee_def updateEmployeeRow_def employeeFields_def
          setEmployee_emailOnly getEmployeeById_def)
  then show ?thesis
    by (simp only: m)
qed

lemma updateCustomer_emailOnly:
  assumes "wf_db db" and "r \<in> set (customers db)"
  shows "updateCustomer L db (Some (Customer.id r))
           \<lparr> CustomerUpdates.firstname = JUndefined, CustomerUpdates.lastname = JUndefined,
             CustomerUpdates.mobile = JUndefined, CustomerUpdates.dateOfBirth = JUndefined,
             CustomerUpdates.email = JStr x, CustomerUpdates.createdBy = JUndefined \<rparr>
         = (if x \<in> set (map Customer.email
                      (filter (\<lambda>y. Customer.id y \<noteq> Customer.id r) (customers db)))
            then Inl SQLITE_CONSTRAINT
            else Inr (Some (r\<lparr> Customer.email := x \<rparr>),
                      db\<lparr> customers :=
                        map (\<lambda>y. if Customer.id y = Customer.id r then y\<lparr> Customer.email := x \<rparr> else y)
                          (customers db) \<rparr>))"
proof -
  have d: "distinct (map Customer.id (customers db))"
    using assms(1) by (simp add: wf_db_def)
  have g: "getCustomerById db (Some (Customer.id r)) = Some r"
    using getCustomerById_member [OF assms] .
  have f: "find (\<lambda>y. Customer.id y = Customer.id r)
             (map (\<lambda>x'. if Customer.id x' = Customer.id r then r\<lparr> Customer.email := x \<rparr> else x')
                (customers db)) = Some (r\<lparr> Customer.email := x \<rparr>)"
    using find_replaced [OF assms(2), of Customer.id "r\<lparr> Customer.email := x \<rparr>"] by simp
  have m: "map (\<lambda>x'. if Customer.id x' = Customer.id r then r\<lparr> Customer.email := x \<rparr> else x')
             (customers db)
           = map (\<lambda>y. if Customer.id y = Customer.id r then y\<lparr> Customer.email := x \<rparr> else y)
               (customers db)"
    using map_replace_one [OF d assms(2), of "\<lambda>y. y\<lparr> Customer.email := x \<rparr>"] .
  have "updateCustomer L db (Some (Customer.id r))
           \<lparr> CustomerUpdates.firstname = JUndefined, CustomerUpdates.lastname = JUndefined,
             CustomerUpdates.mobile = JUndefined, CustomerUpdates.dateOfBirth = JUndefined,
             CustomerUpdates.email = JStr x, CustomerUpdates.createdBy = JUndefined \<rparr>
         = (if x \<in> set (map Customer.email
                      (filter (\<lambda>y. Customer.id y \<noteq> Customer.id r) (customers db)))
            then Inl SQLITE_CONSTRAINT
            else Inr (Some (r\<lparr> Customer.email := x \<rparr>),
                      db\<lparr> customers :=
                        map (\<lambda>x'. if Customer.id x' = Customer.id r
                                   then r\<lparr> Customer.email := x \<rparr> else x')
                          (customers db) \<rparr>))"
    using g f
    by (simp add: updateCustomer_def updateCustomerRow_def customerFields_def
          setCustomer_emailOnly getCustomerById_def)
  then show ?thesis
    by (simp only: m)
qed

lemma employees_PUT_empty:
  assumes "json_body request = Some body"
    and "\<forall>f \<in> set [''firstname'', ''lastname'', ''mobile'', ''dateOfBirth'', ''email'', ''role''].
           get body f = JUndefined"
  shows "snd (employees_PUT L env db request) = db
         \<and> status (fst (employees_PUT L env db request)) \<in> {400, 401, 403}
         \<and> (\<forall>u. AuthResult.user (authenticateRequest L env request) = Some u
                 \<and> TokenPayload.role u = ''admin'' \<longrightarrow>
               status (fst (employees_PUT L env db request)) = 400)"
  using assms
  by (auto simp: employees_PUT_def employeeUpdatesOf_def employeeFields_def split: option.splits)

lemma customers_PUT_empty:
  assumes "json_body request = Some body"
    and "\<forall>f \<in> set [''firstname'', ''lastname'', ''mobile'', ''dateOfBirth'', ''email''].
           get body f = JUndefined"
  shows "snd (customers_PUT L env db request) = db
         \<and> status (fst (customers_PUT L env db request)) \<in> {400, 401, 403}
         \<and> (\<forall>u. AuthResult.user (authenticateRequest L env request) = Some u \<longrightarrow>
               status (fst (customers_PUT L env db request)) \<in> {400, 403})
         \<and> (\<forall>u. AuthResult.user (authenticateRequest L env request) = Some u
                 \<and> TokenPayload.role u = ''admin'' \<longrightarrow>
               status (fst (customers_PUT L env db request)) = 400)
         \<and> (\<forall>u c. AuthResult.user (authenticateRequest L env request) = Some u
                 \<and> getCustomerById db (parseInt (get body ''id'')) = Some c
                 \<and> Customer.createdBy c = Some (TokenPayload.id u) \<longrightarrow>
               status (fst (customers_PUT L env db request)) = 400)"
  using assms
  by (auto simp: customers_PUT_def customerUpdatesOf_def customerFields_def split: option.splits)

text \<open>
  Claim C8 says that an update with only \<open>{email: "x@y.com"}\<close> for an existing id changes
  the email of that record. It does not when another record of the collection holds that
  email: \<open>email\<close> is UNIQUE, the statement is refused, the handler answers 500 and the
  record keeps its email. Here employee 3 holds x@y.com and employee 2 is updated.
\<close>

theorem email_update_refused_counterexample:
  "getEmployeeById demoStore (Some 2) = Some (demoStaff 2 ''EMP002'' ''a@cms.com'')
   \<and> updateEmployee demoLibs demoStore (Some 2)
         \<lparr> EmployeeUpdates.firstname = JUndefined, EmployeeUpdates.lastname = JUndefined,
           EmployeeUpdates.mobile = JUndefined, EmployeeUpdates.dateOfBirth = JUndefined,
           EmployeeUpdates.email = JStr ''x@y.com'', EmployeeUpdates.role = JUndefined \<rparr>
       = Inl SQLITE_CONSTRAINT
   \<and> employees_PUT demoLibs None demoStore
         (demoRequest ''ADMIN001'' [(''id'', JNum 2), (''email'', JStr ''x@y.com'')] ''2'')
       = (Response 500 (ErrorJson ''Internal server error''), demoStore)"
  by code_simp


text \<open>
  Claim C8, amended. An update with no updatable field changes nothing: the store
  functions resolve to \<open>null\<close>, and the update handlers answer 400 to every caller that
  passes their checks of identity, role and ownership (the employee handler to the role
  'admin', the customer handler to the role 'admin' and to the owner of the record) and
  401 or 403 to the others. An update with only \<open>{email: x}\<close> for the id of an existing record, when
  no other record of the collection holds \<open>x\<close>, returns the record with its email
  replaced and every other field as before (code, id and role among them) and stores it
  in place, every other record as before; when another record holds \<open>x\<close>, the update is
  refused with a constraint error and nothing changes.
\<close>

theorem partial_update_frame:
  assumes "wf_db db"
  shows "(employeeFields eu = [] \<longrightarrow> updateEmployee L db i eu = Inr (None, db))
       \<and> (customerFields cu = [] \<longrightarrow> updateCustomer L db i cu = Inr (None, db))
       \<and> (\<forall>body. json_body request = Some body
             \<and> (\<forall>f \<in> set [''firstname'', ''lastname'', ''mobile'', ''dateOfBirth'', ''email'', ''role''].
                   get body f = JUndefined) \<longrightarrow>
             snd (employees_PUT L env db request) = db
             \<and> status (fst (employees_PUT L env db request)) \<in> {400, 401, 403}
             \<and> (\<forall>u. AuthResult.user (authenticateRequest L env request) = Some u
                     \<and> TokenPayload.role u = ''admin'' \<longrightarrow>
                   status (fst (employees_PUT L env db request)) = 400))
       \<and> (\<forall>body. json_body request = Some body
             \<and> (\<forall>f \<in> set [''firstname'', ''lastname'', ''mobile'', ''dateOfBirth'', ''email''].
                   get body f = JUndefined) \<longrightarrow>
             snd (customers_PUT L env db request) = db
             \<and> status (fst (customers_PUT L env db request)) \<in> {400, 401, 403}
             \<and> (\<forall>u. AuthResult.user (authenticateRequest L env request) = Some u \<longrightarrow>
                   status (fst (customers_PUT L env db request)) \<in> {400, 403})
             \<and> (\<forall>u. AuthResult.user (authenticateRequest L env request) = Some u
                     \<and> TokenPayload.role u = ''admin'' \<longrightarrow>
                   status (fst (customers_PUT L env db request)) = 400)
             \<and> (\<forall>u c. AuthResult.user (authenticateRequest L env request) = Some u
                     \<and> getCustomerById db (parseInt (get body ''id'')) = Some c
                     \<and> Customer.createdBy c = Some (TokenPayload.id u) \<longrightarrow>
                   status (fst (customers_PUT L env db request)) = 400))
       \<and> (\<forall>r \<in> set (employees db).
             updateEmployee L db (Some (Employee.id r))
               \<lparr> EmployeeUpdates.firstname = JUndefined, EmployeeUpdates.lastname = JUndefined,
                 EmployeeUpdates.mobile = JUndefined, EmployeeUpdates.dateOfBirth = JUndefined,
                 EmployeeUpdates.email = JStr x, EmployeeUpdates.role = JUndefined \<rparr>
             = (if x \<in> set (map Employee.email
                          (filter (\<lambda>y. Employee.id y \<noteq> Employee.id r) (employees db)))
                then Inl SQLITE_CONSTRAINT
                else Inr (Some (r\<lparr> Employee.email := x \<rparr>),
                          db\<lparr> employees :=
                            map (\<lambda>y. if Employee.id y = Employee.id r
                                      then y\<lparr> Employee.email := x \<rparr> else y)
                              (employees db) \<rparr>)))
       \<and> (\<forall>r \<in> set (customers db).
             updateCustomer L db (Some (Customer.id r))
               \<lparr> CustomerUpdates.firstname = JUndefined, CustomerUpdates.lastname = JUndefined,
                 CustomerUpdates.mobile = JUndefined, CustomerUpdates.dateOfBirth = JUndefined,
                 CustomerUpdates.email = JStr x, CustomerUpdates.createdBy = JUndefined \<rparr>
             = (if x \<in> set (map Customer.email
                          (filter (\<lambda>y. Customer.id y \<noteq> Customer.id r) (customers db)))
                then Inl SQLITE_CONSTRAINT
                else Inr (Some (r\<lparr> Customer.email := x \<rparr>),
                          db\<lparr> customers :=
                            map (\<lambda>y. if Customer.id y = Customer.id r
                                      then y\<lparr> Customer.email := x \<rparr> else y)
                              (customers db) \<rparr>)))"
proof (intro conjI)
  show "employeeFields eu = [] \<longrightarrow> updateEmployee L db i eu = Inr (None, db)"
    by (simp add: updateEmployee_def)
  show "customerFields cu = [] \<longrightarrow> updateCustomer L db i cu = Inr (None, db)"
    by (simp add: updateCustomer_def)
  show "\<forall>body. json_body request = Some body
             \<and> (\<forall>f \<in> set [''firstname'', ''lastname'', ''mobile'', ''dateOfBirth'', ''email'', ''role''].
                   get body f = JUndefined) \<longrightarrow>
             snd (employees_PUT L env db request) = db
             \<and> status (fst (employees_PUT L env db request)) \<in> {400, 401, 403}
             \<and> (\<forall>u. AuthResult.user (authenticateRequest L env request) = Some u
                     \<and> TokenPayload.role u = ''admin'' \<longrightarrow>
                   status (fst (employees_PUT L env db request)) = 400)"
    using employees_PUT_empty [of request _ L env db] by blast
  show "\<forall>body. json_body request = Some body
             \<and> (\<forall>f \<in> set [''firstname'', ''lastname'', ''mobile'', ''dateOfBirth'', ''email''].
                   get body f = JUndefined) \<longrightarrow>
             snd (customers_PUT L env db request) = db
             \<and> status (fst (customers_PUT L env db request)) \<in> {400, 401, 403}
             \<and> (\<forall>u. AuthResult.user (authenticateRequest L env request) = Some u \<longrightarrow>
                   status (fst (customers_PUT L env db request)) \<in> {400, 403})
             \<and> (\<forall>u. AuthResult.user (authenticateRequest L env request) = Some u
                     \<and> TokenPayload.role u = ''admin'' \<longrightarrow>
                   status (fst (customers_PUT L env db request)) = 400)
             \<and> (\<forall>u c. AuthResult.user (authenticateRequest L env request) = Some u
                     \<and> getCustomerById db (parseInt (get body ''id'')) = Some c
                     \<and> Customer.createdBy c = Some (TokenPayload.id u) \<longrightarrow>
                   status (fst (customers_PUT L env db request)) = 400)"
    using customers_PUT_empty [of request _ L env db] by blast
  show "\<forall>r \<in> set (employees db).
             updateEmployee L db (Some (Employee.id r))
               \<lparr> EmployeeUpdates.firstname = JUndefined, EmployeeUpdates.lastname = JUndefined,
                 EmployeeUpdates.mobile = JUndefined, EmployeeUpdates.dateOfBirth = JUndefined,
                 EmployeeUpdates.email = JStr x, EmployeeUpdates.role = JUndefined \<rparr>
             = (if x \<in> set (map Employee.email
                          (filter (\<lambda>y. Employee.id y \<noteq> Employee.id r) (employees db)))
                then Inl SQLITE_CONSTRAINT
                else Inr (Some (r\<lparr> Employee.email := x \<rparr>),
                          db\<lparr> employees :=
                            map (\<lambda>y. if Employee.id y = Employee.id r
                                      then y\<lparr> Employee.email := x \<rparr> else y)
                              (employees db) \<rparr>))"
    using updateEmployee_emailOnly [OF assms] by blast
  show "\<forall>r \<in> set (customers db).
             updateCustomer L db (Some (Customer.id r))
               \<lparr> CustomerUpdates.firstname = JUndefined, CustomerUpdates.lastname = JUndefined,
                 CustomerUpdates.mobile = JUndefined, CustomerUpdates.dateOfBirth = JUndefined,
                 CustomerUpdates.email = JStr x, CustomerUpdates.createdBy = JUndefined \<rparr>
             = (if x \<in> set (map Customer.email
                          (filter (\<lambda>y. Customer.id y \<noteq> Customer.id r) (customers db)))
                then Inl SQLITE_CONSTRAINT
                else Inr (Some (r\<lparr> Customer.email := x \<rparr>),
                          db\<lparr> customers :=
                            map (\<lambda>y. if Customer.id y = Customer.id r
                                      then y\<lparr> Customer.email := x \<rparr> else y)
                              (customers db) \<rparr>))"
    using updateCustomer_emailOnly [OF assms] by blast
qed

theorem partial_update_frame_witness:
  "updateCustomer demoLibs demoStore (Some 1)
       \<lparr> CustomerUpdates.firstname = JUndefined, CustomerUpdates.lastname = JUndefined,
         CustomerUpdates.mobile = JUndefined, CustomerUpdates.dateOfBirth = JUndefined,
         CustomerUpdates.email = JStr ''x@y.com'', CustomerUpdates.createdBy = JUndefined \<rparr>
     = Inr (Some (demoCustomer 1 ''CUST001'' ''x@y.com'' (Some 2)),
            demoStore\<lparr> customers :=
              [demoCustomer 1 ''CUST001'' ''x@y.com'' (Some 2),
               demoCustomer 2 ''CUST002'' ''meena@shop.com'' (Some 3),
               demoCustomer 3 ''CUST003'' ''walkin@shop.com'' None] \<rparr>)
   \<and> updateEmployee demoLibs demoStore (Some 2)
       \<lparr> EmployeeUpdates.firstname = JUndefined, EmployeeUpdates.lastname = JUndefined,
         EmployeeUpdates.mobile = JUndefined, EmployeeUpdates.dateOfBirth = JUndefined,
         EmployeeUpdates.email = JUndefined, EmployeeUpdates.role = JUndefined \<rparr>
     = Inr (None, demoStore)
   \<and> status (fst (employees_PUT demoLibs None demoStore
         (demoRequest ''ADMIN001'' [(''id'', JNum 2)] ''2''))) = 400
   \<and> snd (customers_PUT demoLibs None demoStore
         (demoRequest ''EMP003'' [(''id'', JNum 2)] ''2'')) = demoStore
   \<and> status (fst (customers_PUT demoLibs None demoStore
         (demoRequest ''EMP003'' [(''id'', JNum 2)] ''2''))) = 400"
proof -
  let ?c = "demoCustomer 1 ''CUST001'' ''ravi@shop.com'' (Some 2)"
  let ?eu = "\<lparr> EmployeeUpdates.firstname = JUndefined, EmployeeUpdates.lastname = JUndefined,
         EmployeeUpdates.mobile = JUndefined, EmployeeUpdates.dateOfBirth = JUndefined,
         EmployeeUpdates.email = JUndefined, EmployeeUpdates.role = JUndefined \<rparr>"
  let ?req = "demoRequest ''ADMIN001'' [(''id'', JNum 2)] ''2''"
  have wf: "wf_db demoStore" by code_simp
  have m: "?c \<in> set (customers demoStore)" by code_simp
  have i: "Customer.id ?c = 1" by code_simp
  have n: "''x@y.com'' \<notin> set (map Customer.email
             (filter (\<lambda>y. Customer.id y \<noteq> 1) (customers demoStore)))"
    by code_simp
  have r: "?c\<lparr> Customer.email := ''x@y.com'' \<rparr> = demoCustomer 1 ''CUST001'' ''x@y.com'' (Some 2)"
    by code_simp
  have l: "map (\<lambda>y. if Customer.id y = 1 then y\<lparr> Customer.email := ''x@y.com'' \<rparr> else y)
             (customers demoStore)
           = [demoCustomer 1 ''CUST001'' ''x@y.com'' (Some 2),
              demoCustomer 2 ''CUST002'' ''meena@shop.com'' (Some 3),
              demoCustomer 3 ''CUST003'' ''walkin@shop.com'' None]"
    by code_simp
  have e: "employeeFields ?eu = []" by code_simp
  let ?req3 = "demoRequest ''EMP003'' [(''id'', JNum 2)] ''2''"
  have j: "json_body ?req = Some [(''id'', JNum 2)]
           \<and> (\<forall>f \<in> set [''firstname'', ''lastname'', ''mobile'', ''dateOfBirth'', ''email'', ''role''].
                 get [(''id'', JNum 2)] f = JUndefined)"
    by code_simp
  have u: "AuthResult.user (authenticateRequest demoLibs None ?req) = Some (demoUser 1)
           \<and> TokenPayload.role (demoUser 1) = ''admin''"
    by code_simp
  have j3: "json_body ?req3 = Some [(''id'', JNum 2)]
           \<and> (\<forall>f \<in> set [''firstname'', ''lastname'', ''mobile'', ''dateOfBirth'', ''email''].
                 get [(''id'', JNum 2)] f = JUndefined)"
    by code_simp
  have u3: "AuthResult.user (authenticateRequest demoLibs None ?req3) = Some (demoUser 3)
           \<and> getCustomerById demoStore (parseInt (get [(''id'', JNum 2)] ''id''))
               = Some (demoCustomer 2 ''CUST002'' ''meena@shop.com'' (Some 3))
           \<and> Customer.createdBy (demoCustomer 2 ''CUST002'' ''meena@shop.com'' (Some 3))
               = Some (TokenPayload.id (demoUser 3))"
    by code_simp
  note T3 = partial_update_frame [OF wf, of ?eu demoLibs "Some 2" _ ?req3 None "''x@y.com''"]
  have d: "snd (customers_PUT demoLibs None demoStore ?req3) = demoStore
           \<and> status (fst (customers_PUT demoLibs None demoStore ?req3)) = 400"
    using T3 j3 u3 by blast
  note T = partial_update_frame [OF wf, of ?eu demoLibs "Some 2" _ ?req None "''x@y.com''"]
  have a: "updateEmployee demoLibs demoStore (Some 2) ?eu = Inr (None, demoStore)"
    using T e by blast
  have b: "status (fst (employees_PUT demoLibs None demoStore ?req)) = 400"
    using T j u by blast
  have "updateCustomer demoLibs demoStore (Some (Customer.id ?c))
               \<lparr> CustomerUpdates.firstname = JUndefined, CustomerUpdates.lastname = JUndefined,
                 CustomerUpdates.mobile = JUndefined, CustomerUpdates.dateOfBirth = JUndefined,
                 CustomerUpdates.email = JStr ''x@y.com'', CustomerUpdates.createdBy = JUndefined \<rparr>
             = (if ''x@y.com'' \<in> set (map Customer.email
                          (filter (\<lambda>y. Customer.id y \<noteq> Customer.id ?c) (customers demoStore)))
                then Inl SQLITE_CONSTRAINT
                else Inr (Some (?c\<lparr> Customer.email := ''x@y.com'' \<rparr>),
                          demoStore\<lparr> customers :=
                            map (\<lambda>y. if Customer.id y = Customer.id ?c
                                      then y\<lparr> Customer.email := ''x@y.com'' \<rparr> else y)
                              (customers demoStore) \<rparr>))"
    using T m by blast
  then have c: "updateCustomer demoLibs demoStore (Some 1)
       \<lparr> CustomerUpdates.firstname = JUndefined, CustomerUpdates.lastname = JUndefined,
         CustomerUpdates.mobile = JUndefined, CustomerUpdates.dateOfBirth = JUndefined,
         CustomerUpdates.email = JStr ''x@y.com'', CustomerUpdates.createdBy = JUndefined \<rparr>
     = Inr (Some (demoCustomer 1 ''CUST001'' ''x@y.com'' (Some 2)),
            demoStore\<lparr> customers :=
              [demoCustomer 1 ''CUST001'' ''x@y.com'' (Some 2),
               demoCustomer 2 ''CUST002'' ''meena@shop.com'' (Some 3),
               demoCustomer 3 ''CUST003'' ''walkin@shop.com'' None] \<rparr>)"
    by (simp only: i n r l if_False)
  show ?thesis using a b c d by blast
qed


end
